theory Spec2Isabelle
  imports Complex_Main
begin

section \<open>The OpenDrive backend of rclone (opendrive.go)\<close>

text \<open>
  A shallow embedding of \<^verbatim>\<open>src/opendrive/opendrive.go\<close>. Go strings are byte
  sequences and so are HOL strings; an \<^verbatim>\<open>int64\<close> is an \<open>int\<close> (every
  quantity the upload loop computes lies between 0 and the declared size, so no operation
  of the modelled functions wraps); an \<^verbatim>\<open>error\<close> result is an \<open>error option\<close>
  with \<open>None\<close> for \<^verbatim>\<open>nil\<close>.
\<close>

subsection \<open>Errors and time\<close>

text \<open>
  The sentinel errors of package \<^verbatim>\<open>fs\<close>, \<^verbatim>\<open>io.EOF\<close>, the constructors of
  package \<^verbatim>\<open>errors\<close>, an error produced by a collaborator outside this file, and the
  run-time panic of a nil dereference (not a returned error: the call unwinds).
\<close>

datatype error =
    ErrorObjectNotFound
  | ErrorDirNotFound
  | ErrorCantCopy
  | ErrHashUnsupported
  | io_EOF
  | errors_New string
  | errors_Errorf string "string list"
  | errors_Wrap error string
  | foreign_error string
  | nil_dereference

text \<open>\<^verbatim>\<open>time.Time\<close>: \<^verbatim>\<open>time.Unix(sec, nsec)\<close> builds one, \<^verbatim>\<open>t.Unix()\<close> reads
  the seconds.\<close>

datatype Time = time_Unix (Unix: int) (Nanosecond: int)

definition zero_Time :: Time where
  "zero_Time = time_Unix (- 62135596800) 0"

subsection \<open>The records of the wire protocol\<close>

text \<open>
  The request and response structs are declared in a file of the package that is not part
  of the sources at hand; each is given here with the fields that \<^verbatim>\<open>opendrive.go\<close>
  reads or writes.
\<close>

record UserSessionInfo =
  SessionID :: string

record File =
  FileID :: string
  Name :: string
  Size :: int
  DateModified :: int

record Folder =
  FolderID :: string
  Name :: string
  DateModified :: int

record FolderList =
  Files :: "File list"
  Folders :: "Folder list"

record openUploadResponse =
  TempLocation :: string

record closeUploadResponse =
  FileID :: string
  Size :: int

record copyFileResponse =
  FileID :: string
  Size :: string

text \<open>The JSON request bodies, one constructor for each request struct, the arguments in
  the order the source writes the fields.\<close>

datatype json =
    openUpload string string int
  | closeUpload string string int string
  | copyFile string string string string string
  | removeFolder string string
  | modTimeFile string string string

text \<open>A multipart body is the list of its parts in the order they were created:
  \<^verbatim>\<open>CreateFormFile(fieldname, filename)\<close> and \<^verbatim>\<open>CreateFormField(fieldname)\<close>, each
  with the bytes written to it.\<close>

datatype part =
    FormFile string string string
  | FormField string string

datatype body = NoBody | JSON json | Multipart "part list"

record request =
  Method :: string
  Path :: string
  Body :: body

record Response =
  StatusCode :: int

datatype payload =
    NoPayload
  | FolderListPayload FolderList
  | openUploadPayload openUploadResponse
  | closeUploadPayload closeUploadResponse
  | copyFilePayload copyFileResponse

text \<open>
  What one call of the REST client returns: either no response and an error (the transport
  failed), or a response, a possibly nil error, and the document decoded from its body. A
  nil response with a nil error is not among the outcomes of the client.
\<close>

datatype reply = Failed error | Answered Response "error option" payload

fun resp_of :: "reply \<Rightarrow> Response option" where
  "resp_of (Failed e) = None"
| "resp_of (Answered r e p) = Some r"

fun err_of :: "reply \<Rightarrow> error option" where
  "err_of (Failed e) = Some e"
| "err_of (Answered r e p) = e"

fun decoded :: "reply \<Rightarrow> payload" where
  "decoded (Failed e) = NoPayload"
| "decoded (Answered r e p) = p"

text \<open>Decoding into a variable of a given struct type leaves the variable as it was when
  the reply carries no document of that type.\<close>

definition into_FolderList :: "reply \<Rightarrow> FolderList \<Rightarrow> FolderList" where
  "into_FolderList rp old = (case decoded rp of FolderListPayload v \<Rightarrow> v | _ \<Rightarrow> old)"

definition into_FolderList_ptr :: "reply \<Rightarrow> FolderList option \<Rightarrow> FolderList option" where
  "into_FolderList_ptr rp old = (case decoded rp of FolderListPayload v \<Rightarrow> Some v | _ \<Rightarrow> old)"

definition into_openUploadResponse :: "reply \<Rightarrow> openUploadResponse \<Rightarrow> openUploadResponse" where
  "into_openUploadResponse rp old = (case decoded rp of openUploadPayload v \<Rightarrow> v | _ \<Rightarrow> old)"

definition into_closeUploadResponse :: "reply \<Rightarrow> closeUploadResponse \<Rightarrow> closeUploadResponse" where
  "into_closeUploadResponse rp old = (case decoded rp of closeUploadPayload v \<Rightarrow> v | _ \<Rightarrow> old)"

definition into_copyFileResponse :: "reply \<Rightarrow> copyFileResponse \<Rightarrow> copyFileResponse" where
  "into_copyFileResponse rp old = (case decoded rp of copyFilePayload v \<Rightarrow> v | _ \<Rightarrow> old)"

subsection \<open>Fs, Object and the world outside\<close>

record Fs =
  fs_name :: string
  fs_root :: string
  username :: string
  password :: string
  session :: UserSessionInfo

record Object =
  fs :: Fs
  remote :: string
  obj_id :: string
  modTime :: Time
  md5 :: string
  obj_size :: int

text \<open>\<^verbatim>\<open>fs.ObjectInfo\<close>, the description of the source of an upload.\<close>

record ObjectInfo =
  info_Remote :: string
  info_Size :: int
  info_ModTime :: Time

text \<open>\<^verbatim>\<open>fs.Object\<close> as \<^verbatim>\<open>Copy\<close> receives it: an object of this backend or one of
  another backend, for which the type assertion fails.\<close>

datatype fs_Object = This Object | Other

text \<open>The state: the remote service with everything behind the REST client, and the
  trace of the calls made through the client so far, each with its reply.\<close>

record 'w state =
  world :: 'w
  calls :: "(request \<times> reply) list"

text \<open>
  The collaborators that \<^verbatim>\<open>opendrive.go\<close> calls and that are declared elsewhere are
  parameters of the model: the REST client \<^verbatim>\<open>f.srv\<close>, \<^verbatim>\<open>fs.ShouldRetry\<close> (the
  classification of an error as a transport-level failure), the constant
  \<^verbatim>\<open>fs.HashMD5\<close>, the directory cache \<^verbatim>\<open>f.dirCache\<close> of a given \<^verbatim>\<open>Fs\<close> (its
  operations may call the service and may not return), and the string functions
  \<^verbatim>\<open>strings.ToLower\<close>, \<^verbatim>\<open>path.Join\<close>, \<^verbatim>\<open>url.URL.EscapedPath\<close> and
  \<^verbatim>\<open>replaceReservedChars\<close>.
\<close>

record 'w env =
  srv :: "'w \<Rightarrow> request \<Rightarrow> 'w \<times> reply"
  fs_ShouldRetry :: "error option \<Rightarrow> bool"
  fs_HashMD5 :: int
  dirCache_FindRoot :: "Fs \<Rightarrow> bool \<Rightarrow> 'w state \<Rightarrow> ('w state \<times> error option) option"
  dirCache_FindDir :: "Fs \<Rightarrow> string \<Rightarrow> bool \<Rightarrow> 'w state \<Rightarrow> ('w state \<times> (error + string)) option"
  dirCache_FindRootAndPath ::
    "Fs \<Rightarrow> string \<Rightarrow> bool \<Rightarrow> 'w state \<Rightarrow> ('w state \<times> (error + string \<times> string)) option"
  dirCache_FlushDir :: "Fs \<Rightarrow> string \<Rightarrow> 'w state \<Rightarrow> 'w state"
  strings_ToLower :: "string \<Rightarrow> string"
  path_Join :: "string \<Rightarrow> string \<Rightarrow> string"
  EscapedPath :: "string \<Rightarrow> string"
  replaceReservedChars :: "string \<Rightarrow> string"

text \<open>\<^verbatim>\<open>f.srv.Call\<close> and \<^verbatim>\<open>f.srv.CallJSON\<close>: one request to the service, recorded in
  the trace.\<close>

definition srv_Call :: "'w env \<Rightarrow> request \<Rightarrow> 'w state \<Rightarrow> 'w state \<times> reply" where
  "srv_Call E req s =
     (case srv E (world s) req of
        (w', rp) \<Rightarrow> (s\<lparr>world := w', calls := calls s @ [(req, rp)]\<rparr>, rp))"

subsection \<open>Retry classification and the pacer\<close>

definition retryErrorCodes :: "int list" where
  "retryErrorCodes = [400, 401, 408, 429, 500, 502, 503, 504]"

text \<open>Modelled from the spec: \<^verbatim>\<open>fs.ShouldRetryHTTP\<close>, declared in package \<^verbatim>\<open>fs\<close>
  outside the sources at hand: whether the HTTP status of the response is in the given set.
  Without a response there is no status.\<close>

definition fs_ShouldRetryHTTP :: "Response option \<Rightarrow> int list \<Rightarrow> bool" where
  "fs_ShouldRetryHTTP resp codes =
     (case resp of None \<Rightarrow> False | Some r \<Rightarrow> StatusCode r \<in> set codes)"

definition shouldRetry :: "'w env \<Rightarrow> Response option \<Rightarrow> error option \<Rightarrow> bool \<times> error option" where
  "shouldRetry E resp err =
     (fs_ShouldRetry E err \<or> fs_ShouldRetryHTTP resp retryErrorCodes, err)"

text \<open>Modelled from the spec: \<^verbatim>\<open>pacer.Call\<close>, declared in package \<^verbatim>\<open>pacer\<close>
  outside the sources at hand. It invokes the operation; if the operation asks for a retry
  and an error occurred it invokes it again, otherwise it returns the error of the
  operation. No maximum number of retries is enforced, so the call may not return: that is
  the value \<open>None\<close>. The sleep between two attempts is not modelled.\<close>

partial_function (option) pacer_Call ::
  "('s \<Rightarrow> 's \<times> bool \<times> error option) \<Rightarrow> 's \<Rightarrow> ('s \<times> error option) option" where
  "pacer_Call fn s =
     (case fn s of (s', retry, err) \<Rightarrow>
        if retry \<and> err \<noteq> None then pacer_Call fn s' else Some (s', err))"

declare pacer_Call.simps [code]

subsection \<open>Operations of Fs and Object\<close>

definition rootSlash :: "Fs \<Rightarrow> string" where
  "rootSlash f = (if fs_root f = [] then fs_root f else fs_root f @ ''/'')"

definition pathEscape :: "'w env \<Rightarrow> string \<Rightarrow> string" where
  "pathEscape E p = EscapedPath E p"

definition Hash :: "'w env \<Rightarrow> Object \<Rightarrow> int \<Rightarrow> string \<times> error option" where
  "Hash E ob t = (if t \<noteq> fs_HashMD5 E then ([], Some ErrHashUnsupported) else (md5 ob, None))"


subsection \<open>Decimal numerals (package strconv)\<close>

text \<open>\<^verbatim>\<open>strconv.FormatInt(i, 10)\<close>.\<close>

fun FormatUint :: "nat \<Rightarrow> string" where
  "FormatUint n =
     (if n < 10 then [''0123456789'' ! n]
      else FormatUint (n div 10) @ [''0123456789'' ! (n mod 10)])"

definition FormatInt :: "int \<Rightarrow> string" where
  "FormatInt i = (if i < 0 then CHR ''-'' # FormatUint (nat (- i)) else FormatUint (nat i))"

text \<open>
  \<^verbatim>\<open>strconv.ParseInt(s, 10, 64)\<close>, with the value it returns beside the error (a
  \<^verbatim>\<open>uint64\<close> is an \<open>int\<close> kept below \<open>2^64\<close>). The digits
  are read from the left by \<^verbatim>\<open>ParseUint\<close>: a byte that is not a digit is a syntax
  error with the value 0, leaving the range of \<^verbatim>\<open>uint64\<close> is a range error with the
  value \<open>2^64 - 1\<close>, whichever comes first. \<^verbatim>\<open>ParseInt\<close> then returns 0 on a syntax
  error, and on a value outside \<^verbatim>\<open>int64\<close> a range error with the bound of
  \<^verbatim>\<open>int64\<close> of the same sign.
\<close>

datatype NumError = ErrSyntax | ErrRange

definition digit_val :: "char \<Rightarrow> int option" where
  "digit_val c =
     (let k = (of_char c :: int) in if 48 \<le> k \<and> k \<le> 57 then Some (k - 48) else None)"

fun ParseUint_loop :: "int \<Rightarrow> string \<Rightarrow> int \<times> NumError option" where
  "ParseUint_loop n [] = (n, None)"
| "ParseUint_loop n (d # ds) =
     (case digit_val d of
        None \<Rightarrow> (0, Some ErrSyntax)
      | Some v \<Rightarrow>
          if n \<ge> (2 ^ 64 - 1) div 10 + 1 then (2 ^ 64 - 1, Some ErrRange)
          else if n * 10 + v > 2 ^ 64 - 1 then (2 ^ 64 - 1, Some ErrRange)
          else ParseUint_loop (n * 10 + v) ds)"

definition ParseUint :: "string \<Rightarrow> int \<times> NumError option" where
  "ParseUint s = (if s = [] then (0, Some ErrSyntax) else ParseUint_loop 0 s)"

definition ParseInt :: "string \<Rightarrow> int \<times> NumError option" where
  "ParseInt s0 =
     (if s0 = [] then (0, Some ErrSyntax)
      else
        let neg = (hd s0 = CHR ''-'');
            s = (if hd s0 = CHR ''+'' \<or> hd s0 = CHR ''-'' then tl s0 else s0)
        in case ParseUint s of
             (un, Some ErrSyntax) \<Rightarrow> (0, Some ErrSyntax)
           | (un, _) \<Rightarrow>
               if \<not> neg \<and> un \<ge> 2 ^ 63 then (2 ^ 63 - 1, Some ErrRange)
               else if neg \<and> un > 2 ^ 63 then (- (2 ^ 63), Some ErrRange)
               else (if neg then - un else un, None))"

subsection \<open>Metadata\<close>

definition SetModTime_attempt ::
  "'w env \<Rightarrow> Object \<Rightarrow> Time \<Rightarrow> 'w state \<Rightarrow> 'w state \<times> bool \<times> error option" where
  "SetModTime_attempt E ob t s =
     (case srv_Call E
        \<lparr>Method = ''PUT'', Path = ''/file/filesettings.json'',
         Body = JSON (modTimeFile (SessionID (session (fs ob))) (obj_id ob) (FormatInt (Unix t)))\<rparr> s
      of (s', rp) \<Rightarrow> (s', shouldRetry E (resp_of rp) (err_of rp)))"

definition SetModTime ::
  "'w env \<Rightarrow> Object \<Rightarrow> Time \<Rightarrow> 'w state \<Rightarrow> ('w state \<times> error option) option" where
  "SetModTime E ob t s = pacer_Call (SetModTime_attempt E ob t) s"

text \<open>The operation paced by \<^verbatim>\<open>readMetaData\<close>; the second component of its state is
  the variable \<^verbatim>\<open>folderList\<close> that the reply is decoded into.\<close>

definition itembyname_attempt ::
  "'w env \<Rightarrow> Object \<Rightarrow> string \<Rightarrow> string \<Rightarrow> 'w state \<times> FolderList
     \<Rightarrow> ('w state \<times> FolderList) \<times> bool \<times> error option" where
  "itembyname_attempt E ob directoryID leaf = (\<lambda>(s, folderList).
     case srv_Call E
        \<lparr>Method = ''GET'',
         Path = ''/folder/itembyname.json/'' @ SessionID (session (fs ob)) @ ''/'' @ directoryID
                  @ ''?name='' @ pathEscape E (replaceReservedChars E leaf),
         Body = NoBody\<rparr> s
      of (s', rp) \<Rightarrow> ((s', into_FolderList rp folderList), shouldRetry E (resp_of rp) (err_of rp)))"

text \<open>\<^verbatim>\<open>readMetaData\<close> works on the object in place: the result carries the object as
  the call leaves it.\<close>

definition readMetaData ::
  "'w env \<Rightarrow> Object \<Rightarrow> 'w state \<Rightarrow> ('w state \<times> Object \<times> error option) option" where
  "readMetaData E ob s =
     (case dirCache_FindRootAndPath E (fs ob) (remote ob) False s of
        None \<Rightarrow> None
      | Some (s1, Inl err) \<Rightarrow>
          if err = ErrorDirNotFound then Some (s1, ob, Some ErrorObjectNotFound)
          else Some (s1, ob, Some err)
      | Some (s1, Inr (leaf, directoryID)) \<Rightarrow>
          (case pacer_Call (itembyname_attempt E ob directoryID leaf)
                  (s1, \<lparr>Files = [], Folders = []\<rparr>) of
             None \<Rightarrow> None
           | Some ((s2, folderList), Some err) \<Rightarrow>
               Some (s2, ob, Some (errors_Wrap err ''failed to get folder list''))
           | Some ((s2, folderList), None) \<Rightarrow>
               (case Files folderList of
                  [] \<Rightarrow> Some (s2, ob, Some ErrorObjectNotFound)
                | leafFile # rest \<Rightarrow>
                    Some (s2,
                      ob\<lparr>obj_id := File.FileID leafFile,
                         modTime := time_Unix (File.DateModified leafFile) 0,
                         md5 := [],
                         obj_size := File.Size leafFile\<rparr>,
                      None))))"

definition newObjectWithInfo ::
  "'w env \<Rightarrow> Fs \<Rightarrow> string \<Rightarrow> File option \<Rightarrow> 'w state \<Rightarrow> ('w state \<times> (error + Object)) option" where
  "newObjectWithInfo E f rmt file s =
     (case file of
        Some fl \<Rightarrow>
          Some (s, Inr \<lparr>fs = f, remote = rmt, obj_id = File.FileID fl,
                       modTime = time_Unix (File.DateModified fl) 0, md5 = [],
                       obj_size = File.Size fl\<rparr>)
      | None \<Rightarrow>
          (case readMetaData E
                  \<lparr>fs = f, remote = rmt, obj_id = [], modTime = zero_Time, md5 = [],
                   obj_size = 0\<rparr> s of
             None \<Rightarrow> None
           | Some (s', ob, Some err) \<Rightarrow> Some (s', Inl err)
           | Some (s', ob, None) \<Rightarrow> Some (s', Inr ob)))"

definition NewObject ::
  "'w env \<Rightarrow> Fs \<Rightarrow> string \<Rightarrow> 'w state \<Rightarrow> ('w state \<times> (error + Object)) option" where
  "NewObject E f rmt s = newObjectWithInfo E f rmt None s"

text \<open>\<^verbatim>\<open>createObject\<close> returns the object, the leaf and the directory ID; the two
  parameters \<^verbatim>\<open>modTime\<close> and \<^verbatim>\<open>size\<close> are not used by its body.\<close>

definition createObject ::
  "'w env \<Rightarrow> Fs \<Rightarrow> string \<Rightarrow> Time \<Rightarrow> int \<Rightarrow> 'w state
     \<Rightarrow> ('w state \<times> (error + Object \<times> string \<times> string)) option" where
  "createObject E f rmt mt sz s =
     (case dirCache_FindRootAndPath E f rmt True s of
        None \<Rightarrow> None
      | Some (s', Inl err) \<Rightarrow> Some (s', Inl err)
      | Some (s', Inr (leaf, directoryID)) \<Rightarrow>
          Some (s', Inr (\<lparr>fs = f, remote = rmt, obj_id = [], modTime = zero_Time, md5 = [],
                         obj_size = 0\<rparr>, leaf, directoryID)))"


subsection \<open>Removing a directory\<close>

definition deleteObject_attempt ::
  "'w env \<Rightarrow> Fs \<Rightarrow> string \<Rightarrow> 'w state \<Rightarrow> 'w state \<times> bool \<times> error option" where
  "deleteObject_attempt E f ident s =
     (case srv_Call E
        \<lparr>Method = ''POST'', Path = ''/folder/remove.json'',
         Body = JSON (removeFolder (SessionID (session f)) ident)\<rparr> s
      of (s', rp) \<Rightarrow> (s', shouldRetry E (resp_of rp) (err_of rp)))"

definition deleteObject ::
  "'w env \<Rightarrow> Fs \<Rightarrow> string \<Rightarrow> 'w state \<Rightarrow> ('w state \<times> error option) option" where
  "deleteObject E f ident s = pacer_Call (deleteObject_attempt E f ident) s"

text \<open>The operation paced by \<^verbatim>\<open>readMetaDataForFolderID\<close>; \<^verbatim>\<open>info\<close> is a pointer,
  nil until a reply has been decoded into it.\<close>

definition folderlist_attempt ::
  "'w env \<Rightarrow> Fs \<Rightarrow> string \<Rightarrow> 'w state \<times> FolderList option
     \<Rightarrow> ('w state \<times> FolderList option) \<times> bool \<times> error option" where
  "folderlist_attempt E f ident = (\<lambda>(s, info).
     case srv_Call E
        \<lparr>Method = ''GET'',
         Path = ''/folder/list.json/'' @ SessionID (session f) @ ''/'' @ ident,
         Body = NoBody\<rparr> s
      of (s', rp) \<Rightarrow> ((s', into_FolderList_ptr rp info), shouldRetry E (resp_of rp) (err_of rp)))"

definition readMetaDataForFolderID ::
  "'w env \<Rightarrow> Fs \<Rightarrow> string \<Rightarrow> 'w state \<Rightarrow> ('w state \<times> FolderList option \<times> error option) option" where
  "readMetaDataForFolderID E f ident s =
     (case pacer_Call (folderlist_attempt E f ident) (s, None) of
        None \<Rightarrow> None
      | Some ((s', info), err) \<Rightarrow> Some (s', info, err))"

text \<open>\<^verbatim>\<open>purgeCheck\<close>. The test \<^verbatim>\<open>check && len(item.Files) != 0\<close> reads through
  \<^verbatim>\<open>item\<close> only when \<^verbatim>\<open>check\<close> is set. The test of \<^verbatim>\<open>err\<close> after
  \<^verbatim>\<open>FlushDir\<close> reads the nil error of the delete call.\<close>

definition purgeCheck ::
  "'w env \<Rightarrow> Fs \<Rightarrow> string \<Rightarrow> bool \<Rightarrow> 'w state \<Rightarrow> ('w state \<times> error option) option" where
  "purgeCheck E f dir check s =
     (if path_Join E (fs_root f) dir = [] then
        Some (s, Some (errors_New (''can'' @ [CHR 0x27] @ ''t purge root directory'')))
      else
        case dirCache_FindRoot E f False s of
          None \<Rightarrow> None
        | Some (s1, Some err) \<Rightarrow> Some (s1, Some err)
        | Some (s1, None) \<Rightarrow>
        (case dirCache_FindDir E f dir False s1 of
          None \<Rightarrow> None
        | Some (s2, Inl err) \<Rightarrow> Some (s2, Some err)
        | Some (s2, Inr rootID) \<Rightarrow>
        (case readMetaDataForFolderID E f rootID s2 of
          None \<Rightarrow> None
        | Some (s3, item, Some err) \<Rightarrow> Some (s3, Some err)
        | Some (s3, item, None) \<Rightarrow>
            (case (if check then
                     (case item of
                        None \<Rightarrow> Some nil_dereference
                      | Some it \<Rightarrow>
                          if length (Files it) \<noteq> 0 then Some (errors_New ''folder not empty'')
                          else None)
                   else None) of
               Some refused \<Rightarrow> Some (s3, Some refused)
             | None \<Rightarrow>
              (case deleteObject E f rootID s3 of
                 None \<Rightarrow> None
               | Some (s4, Some err) \<Rightarrow> Some (s4, Some err)
               | Some (s4, None) \<Rightarrow> Some (dirCache_FlushDir E f dir s4, None))))))"

definition Rmdir :: "'w env \<Rightarrow> Fs \<Rightarrow> string \<Rightarrow> 'w state \<Rightarrow> ('w state \<times> error option) option" where
  "Rmdir E f dir s = purgeCheck E f dir True s"

definition Purge :: "'w env \<Rightarrow> Fs \<Rightarrow> 'w state \<Rightarrow> ('w state \<times> error option) option" where
  "Purge E f s = purgeCheck E f [] False s"

subsection \<open>Server-side copy\<close>

definition copy_attempt ::
  "'w env \<Rightarrow> Fs \<Rightarrow> Object \<Rightarrow> string \<Rightarrow> 'w state \<times> copyFileResponse
     \<Rightarrow> ('w state \<times> copyFileResponse) \<times> bool \<times> error option" where
  "copy_attempt E f srcObj directoryID = (\<lambda>(s, response).
     case srv_Call E
        \<lparr>Method = ''POST'', Path = ''/file/move_copy.json'',
         Body = JSON (copyFile (SessionID (session f)) (obj_id srcObj) directoryID
                        ''false'' ''true'')\<rparr> s
      of (s', rp) \<Rightarrow>
        ((s', into_copyFileResponse rp response), shouldRetry E (resp_of rp) (err_of rp)))"

text \<open>\<^verbatim>\<open>Copy\<close>. The metadata of the source object is read first (in place, on the
  caller's object), then the two paths are compared, then the destination is prepared and the
  copy requested; the error of \<^verbatim>\<open>ParseInt\<close> is dropped.\<close>

definition Copy ::
  "'w env \<Rightarrow> Fs \<Rightarrow> fs_Object \<Rightarrow> string \<Rightarrow> 'w state \<Rightarrow> ('w state \<times> (error + Object)) option" where
  "Copy E f src rmt s =
     (case src of
        Other \<Rightarrow> Some (s, Inl ErrorCantCopy)
      | This srcObj0 \<Rightarrow>
        (case readMetaData E srcObj0 s of
          None \<Rightarrow> None
        | Some (s1, srcObj, Some err) \<Rightarrow> Some (s1, Inl err)
        | Some (s1, srcObj, None) \<Rightarrow>
            let srcPath = rootSlash (fs srcObj) @ remote srcObj;
                dstPath = rootSlash f @ rmt
            in
            if strings_ToLower E srcPath = strings_ToLower E dstPath then
              Some (s1, Inl (errors_Errorf
                (''Can'' @ [CHR 0x27] @ ''t copy %q -> %q as are same name when lowercase'')
                [srcPath, dstPath]))
            else
              (case createObject E f rmt (modTime srcObj) (obj_size srcObj) s1 of
                 None \<Rightarrow> None
               | Some (s2, Inl err) \<Rightarrow> Some (s2, Inl err)
               | Some (s2, Inr (dstObj, leaf, directoryID)) \<Rightarrow>
               (case pacer_Call (copy_attempt E f srcObj directoryID)
                       (s2, \<lparr>copyFileResponse.FileID = [], copyFileResponse.Size = []\<rparr>) of
                  None \<Rightarrow> None
                | Some ((s3, response), Some err) \<Rightarrow> Some (s3, Inl err)
                | Some ((s3, response), None) \<Rightarrow>
                    Some (s3, Inr (dstObj\<lparr>obj_id := copyFileResponse.FileID response,
                                           obj_size := fst (ParseInt (copyFileResponse.Size response))\<rparr>))))))"


subsection \<open>Chunked upload\<close>

definition chunkSize :: int where
  "chunkSize = 1024 * 1024 * 10"

text \<open>\<^verbatim>\<open>io.CopyN(dst, src, n)\<close> on a reader that still yields the bytes \<open>rd\<close>: the
  bytes copied, what the reader yields afterwards, and \<^verbatim>\<open>io.EOF\<close> when the reader ended
  before \<open>n\<close> bytes.\<close>

definition io_CopyN :: "string \<Rightarrow> int \<Rightarrow> string \<times> string \<times> error option" where
  "io_CopyN rd n =
     (if int (length rd) < n then (rd, [], Some io_EOF)
      else (take (nat n) rd, drop (nat n) rd, None))"

definition openUpload_attempt ::
  "'w env \<Rightarrow> Object \<Rightarrow> int \<Rightarrow> 'w state \<times> openUploadResponse
     \<Rightarrow> ('w state \<times> openUploadResponse) \<times> bool \<times> error option" where
  "openUpload_attempt E ob sz = (\<lambda>(s, openResponse).
     case srv_Call E
        \<lparr>Method = ''POST'', Path = ''/upload/open_file_upload.json'',
         Body = JSON (openUpload (SessionID (session (fs ob))) (obj_id ob) sz)\<rparr> s
      of (s', rp) \<Rightarrow>
        ((s', into_openUploadResponse rp openResponse), shouldRetry E (resp_of rp) (err_of rp)))"

text \<open>The operation paced for one chunk. Its state is the service state and the reader
  \<^verbatim>\<open>in\<close>: every attempt reads \<^verbatim>\<open>currentChunkSize\<close> bytes from the reader before it
  sends them. Writing to the form, which is held in memory, does not fail. The content-type
  header with the boundary of the form is not part of the modelled request.\<close>

definition chunk_attempt ::
  "'w env \<Rightarrow> Object \<Rightarrow> openUploadResponse \<Rightarrow> int \<Rightarrow> int \<Rightarrow> 'w state \<times> string
     \<Rightarrow> ('w state \<times> string) \<times> bool \<times> error option" where
  "chunk_attempt E ob openResponse chunkOffset currentChunkSize = (\<lambda>(s, rd).
     case io_CopyN rd currentChunkSize of
       (copied, rd', Some err) \<Rightarrow> ((s, rd'), False, Some err)
     | (copied, rd', None) \<Rightarrow>
        (case srv_Call E
           \<lparr>Method = ''POST'', Path = ''/upload/upload_file_chunk.json'',
            Body = Multipart
              [FormFile ''file_data'' (remote ob) copied,
               FormField ''session_id'' (SessionID (session (fs ob))),
               FormField ''session_id'' (SessionID (session (fs ob))),
               FormField ''file_id'' (obj_id ob),
               FormField ''temp_location'' (TempLocation openResponse),
               FormField ''chunk_offset'' (FormatInt chunkOffset),
               FormField ''chunk_size'' (FormatInt currentChunkSize)]\<rparr> s
         of (s', rp) \<Rightarrow> ((s', rd'), shouldRetry E (resp_of rp) (err_of rp))))"

definition closeUpload_attempt ::
  "'w env \<Rightarrow> Object \<Rightarrow> int \<Rightarrow> openUploadResponse \<Rightarrow> 'w state \<times> closeUploadResponse
     \<Rightarrow> ('w state \<times> closeUploadResponse) \<times> bool \<times> error option" where
  "closeUpload_attempt E ob sz openResponse = (\<lambda>(s, closeResponse).
     case srv_Call E
        \<lparr>Method = ''POST'', Path = ''/upload/close_file_upload.json'',
         Body = JSON (closeUpload (SessionID (session (fs ob))) (obj_id ob) sz
                        (TempLocation openResponse))\<rparr> s
      of (s', rp) \<Rightarrow>
        ((s', into_closeUploadResponse rp closeResponse), shouldRetry E (resp_of rp) (err_of rp)))"

text \<open>The loop \<^verbatim>\<open>for remainingBytes > 0\<close> of \<^verbatim>\<open>Update\<close>, with its variables as
  arguments. After a chunk call without error the response is not nil, so closing its body
  does not fail.\<close>

function Update_loop ::
  "'w env \<Rightarrow> Object \<Rightarrow> openUploadResponse \<Rightarrow> int \<Rightarrow> int \<Rightarrow> int \<Rightarrow> 'w state \<times> string
     \<Rightarrow> (('w state \<times> string) \<times> error option) option" where
  "Update_loop E ob openResponse chunkOffset remainingBytes chunkCounter st =
     (if remainingBytes > 0 then
        let currentChunkSize = (if chunkSize > remainingBytes then remainingBytes else chunkSize)
        in case pacer_Call
                  (chunk_attempt E ob openResponse chunkOffset currentChunkSize) st of
             None \<Rightarrow> None
           | Some (st', Some err) \<Rightarrow> Some (st', Some (errors_Wrap err ''failed to create file''))
           | Some (st', None) \<Rightarrow>
               Update_loop E ob openResponse (chunkOffset + currentChunkSize)
                 (remainingBytes - currentChunkSize) (chunkCounter + 1) st'
      else Some (st, None))"
  by pat_completeness auto
termination
  by (relation "measure (\<lambda>(E, ob, openResponse, chunkOffset, remainingBytes, chunkCounter, st).
        nat remainingBytes)") (auto simp: chunkSize_def)

text \<open>\<^verbatim>\<open>Update\<close>: open, the chunks, close, then the modification time. The result
  carries the state, what the reader still yields, and the object as the call leaves it.\<close>

definition Update ::
  "'w env \<Rightarrow> Object \<Rightarrow> string \<Rightarrow> ObjectInfo \<Rightarrow> 'w state
     \<Rightarrow> (('w state \<times> string) \<times> Object \<times> error option) option" where
  "Update E ob rd src s =
     (let sz = info_Size src; mt = info_ModTime src in
      (case pacer_Call (openUpload_attempt E ob sz) (s, \<lparr>TempLocation = []\<rparr>) of
        None \<Rightarrow> None
      | Some ((s1, openResponse), Some err) \<Rightarrow>
          Some ((s1, rd), ob, Some (errors_Wrap err ''failed to create file''))
      | Some ((s1, openResponse), None) \<Rightarrow>
      (case Update_loop E ob openResponse 0 sz 0 (s1, rd) of
        None \<Rightarrow> None
      | Some (st2, Some err) \<Rightarrow> Some (st2, ob, Some err)
      | Some ((s2, rd2), None) \<Rightarrow>
      (case pacer_Call (closeUpload_attempt E ob sz openResponse)
              (s2, \<lparr>closeUploadResponse.FileID = [], closeUploadResponse.Size = 0\<rparr>) of
        None \<Rightarrow> None
      | Some ((s3, closeResponse), Some err) \<Rightarrow>
          Some ((s3, rd2), ob, Some (errors_Wrap err ''failed to create file''))
      | Some ((s3, closeResponse), None) \<Rightarrow>
          (let ob' = ob\<lparr>obj_id := closeUploadResponse.FileID closeResponse,
                        obj_size := closeUploadResponse.Size closeResponse,
                        modTime := mt\<rparr>
           in (case SetModTime E ob' mt s3 of
                 None \<Rightarrow> None
               | Some (s4, err) \<Rightarrow> Some ((s4, rd2), ob', err)))))))"


subsection \<open>Reading the trace\<close>

text \<open>The calls made between two states, the values of a form field of a multipart body,
  the bytes of its file part, and the chunk requests of a trace that were answered
  without error (an attempt answered with an error is either repeated by the pacer or ends
  the upload).\<close>

definition sent_since :: "'w state \<Rightarrow> 'w state \<Rightarrow> (request \<times> reply) list" where
  "sent_since s s' = drop (length (calls s)) (calls s')"

fun form_values :: "string \<Rightarrow> body \<Rightarrow> string list" where
  "form_values name (Multipart ps) = [v. FormField n v \<leftarrow> ps, n = name]"
| "form_values name b = []"

fun file_data :: "body \<Rightarrow> string" where
  "file_data (Multipart ps) = concat [v. FormFile n fn v \<leftarrow> ps]"
| "file_data b = []"

definition is_chunk_send :: "request \<Rightarrow> bool" where
  "is_chunk_send rq = (Path rq = ''/upload/upload_file_chunk.json'')"

definition chunk_sends :: "(request \<times> reply) list \<Rightarrow> request list" where
  "chunk_sends tr = [rq. (rq, rp) \<leftarrow> tr, is_chunk_send rq]"

definition accepted_chunks :: "(request \<times> reply) list \<Rightarrow> request list" where
  "accepted_chunks tr = [rq. (rq, rp) \<leftarrow> tr, is_chunk_send rq \<and> err_of rp = None]"

definition requested :: "string \<Rightarrow> (request \<times> reply) list \<Rightarrow> bool" where
  "requested p tr = (p \<in> set (map (\<lambda>(rq, rp). Path rq) tr))"

text \<open>A chunk request as \<^verbatim>\<open>Update\<close> builds it for the session \<open>sid\<close>, the byte offset
  \<open>off\<close> and \<open>n\<close> bytes of data.\<close>

definition carries_chunk :: "string \<Rightarrow> int \<Rightarrow> int \<Rightarrow> request \<Rightarrow> bool" where
  "carries_chunk sid off n rq \<longleftrightarrow>
     is_chunk_send rq \<and>
     form_values ''session_id'' (Body rq) = [sid, sid] \<and>
     form_values ''chunk_offset'' (Body rq) = [FormatInt off] \<and>
     form_values ''chunk_size'' (Body rq) = [FormatInt n] \<and>
     int (length (file_data (Body rq))) = n"

text \<open>The paths requested by an operation that returned, and its result.\<close>

definition paths_called :: "('w state \<times> 'a) option \<Rightarrow> string list option" where
  "paths_called res = map_option (\<lambda>(s, r). map (\<lambda>(rq, rp). Path rq) (calls s)) res"

definition result_of :: "('w state \<times> 'a) option \<Rightarrow> 'a option" where
  "result_of res = map_option snd res"

text \<open>What an upload that returned has done: the data of the chunks that were answered
  without error, what the reader still yields, and the error returned.\<close>

definition upload_outcome ::
  "(('w state \<times> string) \<times> Object \<times> error option) option
     \<Rightarrow> (string list \<times> string \<times> error option) option" where
  "upload_outcome res =
     map_option (\<lambda>((s, rd'), ob, err).
       (map (\<lambda>rq. file_data (Body rq)) (accepted_chunks (calls s)), rd', err)) res"

text \<open>The document of the last reply received by an operation that returned.\<close>

definition last_document :: "('w state \<times> 'a) option \<Rightarrow> payload option" where
  "last_document res = map_option (\<lambda>(s, r). decoded (snd (last (calls s)))) res"

subsection \<open>A simulated service and directory cache\<close>

text \<open>
  A concrete world to run the operations in. The service counts the requests it has
  served; it answers the first \<open>failures\<close> of them with status 429 and an error, and
  every later one with status 200 and the document its endpoint returns: the given listing
  for the two folder endpoints, a temporary location for an opened upload, the declared size
  for a closed upload, the given size string for a copy. The directory cache resolves
  directory paths from a fixed table without calling the service.
\<close>

definition sim_srv :: "FolderList \<Rightarrow> string \<Rightarrow> nat \<Rightarrow> nat \<Rightarrow> request \<Rightarrow> nat \<times> reply" where
  "sim_srv listing copySize failures n req =
     (Suc n,
      if n < failures then
        Answered \<lparr>StatusCode = 429\<rparr> (Some (foreign_error ''rate limit'')) NoPayload
      else if take 8 (Path req) = ''/folder/'' \<and> Method req = ''GET'' then
        Answered \<lparr>StatusCode = 200\<rparr> None (FolderListPayload listing)
      else if Path req = ''/upload/open_file_upload.json'' then
        Answered \<lparr>StatusCode = 200\<rparr> None (openUploadPayload \<lparr>TempLocation = ''tmp''\<rparr>)
      else if Path req = ''/upload/close_file_upload.json'' then
        Answered \<lparr>StatusCode = 200\<rparr> None
          (closeUploadPayload
             \<lparr>closeUploadResponse.FileID = ''42'',
              closeUploadResponse.Size = (case Body req of JSON (closeUpload a b sz c) \<Rightarrow> sz | _ \<Rightarrow> 0)\<rparr>)
      else if Path req = ''/file/move_copy.json'' then
        Answered \<lparr>StatusCode = 200\<rparr> None
          (copyFilePayload \<lparr>copyFileResponse.FileID = ''43'', copyFileResponse.Size = copySize\<rparr>)
      else Answered \<lparr>StatusCode = 200\<rparr> None NoPayload)"

definition sim_SplitPath :: "string \<Rightarrow> string \<times> string" where
  "sim_SplitPath p =
     (rev (drop 1 (dropWhile (\<lambda>c. c \<noteq> CHR ''/'') (rev p))),
      rev (takeWhile (\<lambda>c. c \<noteq> CHR ''/'') (rev p)))"

definition sim_ToLower :: "string \<Rightarrow> string" where
  "sim_ToLower str =
     map (\<lambda>c. let k = (of_char c :: nat) in if 65 \<le> k \<and> k \<le> 90 then char_of (k + 32) else c) str"

definition sim_env :: "(string \<times> string) list \<Rightarrow> FolderList \<Rightarrow> string \<Rightarrow> nat \<Rightarrow> nat env" where
  "sim_env dirs listing copySize failures =
     \<lparr>srv = sim_srv listing copySize failures,
      fs_ShouldRetry = (\<lambda>err. case err of Some (foreign_error m) \<Rightarrow> True | _ \<Rightarrow> False),
      fs_HashMD5 = 1,
      dirCache_FindRoot = (\<lambda>f create s. Some (s, None)),
      dirCache_FindDir = (\<lambda>f dir create s.
        Some (s, case map_of dirs dir of Some i \<Rightarrow> Inr i | None \<Rightarrow> Inl ErrorDirNotFound)),
      dirCache_FindRootAndPath = (\<lambda>f p create s.
        Some (s, case map_of dirs (fst (sim_SplitPath p)) of
                   Some i \<Rightarrow> Inr (snd (sim_SplitPath p), i)
                 | None \<Rightarrow> Inl ErrorDirNotFound)),
      dirCache_FlushDir = (\<lambda>f dir s. s),
      strings_ToLower = sim_ToLower,
      path_Join = (\<lambda>a b. if a = [] then b else if b = [] then a else a @ ''/'' @ b),
      EscapedPath = (\<lambda>p. p),
      replaceReservedChars = (\<lambda>p. p)\<rparr>"

definition sim_fs :: Fs where
  "sim_fs = \<lparr>fs_name = ''remote'', fs_root = [], username = ''user'', password = ''secret'',
            session = \<lparr>SessionID = ''sid''\<rparr>\<rparr>"

definition sim_start :: "nat state" where
  "sim_start = \<lparr>world = 0, calls = []\<rparr>"

definition sim_object :: "string \<Rightarrow> Object" where
  "sim_object rmt =
     \<lparr>fs = sim_fs, remote = rmt, obj_id = ''7'', modTime = time_Unix 0 0, md5 = [], obj_size = 0\<rparr>"

definition sim_file :: File where
  "sim_file = \<lparr>File.FileID = ''7'', File.Name = ''file.txt'', File.Size = 3, File.DateModified = 1500000000\<rparr>"

definition sim_folder :: Folder where
  "sim_folder = \<lparr>FolderID = ''9'', Folder.Name = ''sub'', Folder.DateModified = 1500000000\<rparr>"


text \<open>The same service, except that it answers its request number \<open>k\<close> (counted
  from 0) with the given reply.\<close>

definition sim_srv_answering :: "nat \<Rightarrow> reply \<Rightarrow> nat \<Rightarrow> request \<Rightarrow> nat \<times> reply" where
  "sim_srv_answering k rp n req =
     (if n = k then (Suc n, rp) else sim_srv \<lparr>Files = [], Folders = []\<rparr> [] 0 n req)"

definition sim_env_answering :: "nat \<Rightarrow> reply \<Rightarrow> nat env" where
  "sim_env_answering k rp =
     (sim_env [] \<lparr>Files = [], Folders = []\<rparr> [] 0)\<lparr>srv := sim_srv_answering k rp\<rparr>"

text \<open>What an upload that returned has sent: the paths of all its requests in order, the
  offset field and the number of data bytes of every chunk request in order (answered with
  an error or not), and the error returned.\<close>

definition upload_sends ::
  "(('w state \<times> string) \<times> Object \<times> error option) option
     \<Rightarrow> (string list \<times> (string list \<times> nat) list \<times> error option) option" where
  "upload_sends res =
     map_option (\<lambda>((s, rd'), ob, err).
       (map (\<lambda>(rq, rp). Path rq) (calls s),
        map (\<lambda>rq. (form_values ''chunk_offset'' (Body rq), length (file_data (Body rq))))
          (chunk_sends (calls s)),
        err)) res"

section \<open>Properties\<close>

subsection \<open>The pacer\<close>

text \<open>An invariant rule for a paced operation: what holds before the first attempt and is
  kept by every repeated attempt gives, at the attempt that ends the call, the property of
  the result.\<close>

lemma pacer_Call_rule:
  assumes "pacer_Call fn s = Some (t, e)"
    and "I s"
    and step: "\<And>a b r x. I a \<Longrightarrow> fn a = (b, r, x) \<Longrightarrow> r \<Longrightarrow> x \<noteq> None \<Longrightarrow> I b"
    and exit: "\<And>a b r x. I a \<Longrightarrow> fn a = (b, r, x) \<Longrightarrow> \<not> (r \<and> x \<noteq> None) \<Longrightarrow> Q b x"
  shows "Q t e"
proof -
  have "fn = fn \<longrightarrow> I s \<longrightarrow> Q (fst (t, e)) (snd (t, e))"
  proof (rule pacer_Call.raw_induct
      [where P = "\<lambda>fn' a y. fn' = fn \<longrightarrow> I a \<longrightarrow> Q (fst y) (snd y)", OF _ assms(1)])
    fix pc :: "('a \<Rightarrow> 'a \<times> bool \<times> error option) \<Rightarrow> 'a \<Rightarrow> ('a \<times> error option) option"
    fix fn' a y
    assume IH: "\<And>g c z. pc g c = Some z \<Longrightarrow> g = fn \<longrightarrow> I c \<longrightarrow> Q (fst z) (snd z)"
    assume body: "(case fn' a of (s', retry, err) \<Rightarrow>
        if retry \<and> err \<noteq> None then pc fn' s' else Some (s', err)) = Some y"
    show "fn' = fn \<longrightarrow> I a \<longrightarrow> Q (fst y) (snd y)"
    proof (intro impI)
      assume eq: "fn' = fn" and inv: "I a"
      obtain b r x where f: "fn a = (b, r, x)" by (cases "fn a") auto
      show "Q (fst y) (snd y)"
      proof (cases "r \<and> x \<noteq> None")
        case True
        with body f eq have "pc fn b = Some y" by simp
        moreover have "I b" using step [OF inv f] True by blast
        ultimately show ?thesis using IH by blast
      next
        case False
        with body f eq have "y = (b, x)" by auto
        with exit [OF inv f False] show ?thesis by simp
      qed
    qed
  qed
  with assms(2) show ?thesis by simp
qed

text \<open>A paced operation returns when every repeated attempt decreases a measure.\<close>

lemma pacer_Call_returns:
  assumes dec: "\<And>a b r x. fn a = (b, r, x) \<Longrightarrow> r \<Longrightarrow> x \<noteq> None \<Longrightarrow> m b < (m a :: nat)"
  shows "\<exists>y. pacer_Call fn s = Some y"
proof (induction "m s" arbitrary: s rule: less_induct)
  case less
  obtain b r x where f: "fn s = (b, r, x)" by (cases "fn s") auto
  show ?case
  proof (cases "r \<and> x \<noteq> None")
    case True
    then have "m b < m s" using dec [OF f] by blast
    from less [OF this] obtain y where "pacer_Call fn b = Some y" by blast
    with True f show ?thesis by (subst pacer_Call.simps) simp
  next
    case False
    with f show ?thesis by (subst pacer_Call.simps) auto
  qed
qed


subsection \<open>Retry classification\<close>

text \<open>
  C2. For every response and error, \<^verbatim>\<open>shouldRetry\<close> classifies the call as retryable
  exactly when the error is a transport-level failure (as \<^verbatim>\<open>fs.ShouldRetry\<close> decides) or
  the HTTP status is one of 400, 401, 408, 429, 500, 502, 503, 504, and it hands the error on
  unchanged. Any other outcome is terminal: a paced operation whose attempt ends with it is
  not invoked again, and the pacer returns that error to the caller.
\<close>

theorem shouldRetry_retryable_iff:
  "(fst (shouldRetry E resp err) \<longleftrightarrow>
      fs_ShouldRetry E err \<or>
      (\<exists>r. resp = Some r \<and> StatusCode r \<in> {400, 401, 408, 429, 500, 502, 503, 504}))
   \<and> snd (shouldRetry E resp err) = err
   \<and> (\<forall>fn s s'. \<not> fst (shouldRetry E resp err) \<longrightarrow> fn s = (s', shouldRetry E resp err) \<longrightarrow>
          pacer_Call fn s = Some (s', err))"
proof (intro conjI allI impI)
  show "fst (shouldRetry E resp err) \<longleftrightarrow>
      fs_ShouldRetry E err \<or>
      (\<exists>r. resp = Some r \<and> StatusCode r \<in> {400, 401, 408, 429, 500, 502, 503, 504})"
    by (cases resp) (simp_all add: shouldRetry_def fs_ShouldRetryHTTP_def retryErrorCodes_def)
  show "snd (shouldRetry E resp err) = err"
    by (simp add: shouldRetry_def)
next
  fix fn :: "'s \<Rightarrow> 's \<times> bool \<times> error option" and s s'
  assume "\<not> fst (shouldRetry E resp err)" and "fn s = (s', shouldRetry E resp err)"
  then show "pacer_Call fn s = Some (s', err)"
    by (subst pacer_Call.simps) (simp add: shouldRetry_def)
qed

theorem shouldRetry_retryable_iff_witness:
  "\<not> fst (shouldRetry (sim_env [] \<lparr>Files = [], Folders = []\<rparr> [] 0)
            (Some \<lparr>StatusCode = 404\<rparr>) (Some ErrorObjectNotFound))
   \<and> (\<lambda>s::nat. (Suc s, shouldRetry (sim_env [] \<lparr>Files = [], Folders = []\<rparr> [] 0)
            (Some \<lparr>StatusCode = 404\<rparr>) (Some ErrorObjectNotFound))) 0
       = (1, shouldRetry (sim_env [] \<lparr>Files = [], Folders = []\<rparr> [] 0)
            (Some \<lparr>StatusCode = 404\<rparr>) (Some ErrorObjectNotFound))
   \<and> pacer_Call (\<lambda>s::nat. (Suc s, shouldRetry (sim_env [] \<lparr>Files = [], Folders = []\<rparr> [] 0)
            (Some \<lparr>StatusCode = 404\<rparr>) (Some ErrorObjectNotFound))) 0
       = Some (1, Some ErrorObjectNotFound)
   \<and> fst (shouldRetry (sim_env [] \<lparr>Files = [], Folders = []\<rparr> [] 0)
            (Some \<lparr>StatusCode = 429\<rparr>) None)"
proof -
  let ?E = "sim_env [] \<lparr>Files = [], Folders = []\<rparr> [] 0"
  let ?fn = "\<lambda>s::nat. (Suc s, shouldRetry ?E (Some \<lparr>StatusCode = 404\<rparr>) (Some ErrorObjectNotFound))"
  have n: "\<not> fst (shouldRetry ?E (Some \<lparr>StatusCode = 404\<rparr>) (Some ErrorObjectNotFound))"
    by (simp add: shouldRetry_def sim_env_def fs_ShouldRetryHTTP_def retryErrorCodes_def)
  have e: "?fn 0 = (1, shouldRetry ?E (Some \<lparr>StatusCode = 404\<rparr>) (Some ErrorObjectNotFound))"
    by simp
  have p: "pacer_Call ?fn 0 = Some (1, Some ErrorObjectNotFound)"
    by (rule shouldRetry_retryable_iff
          [of ?E "Some \<lparr>StatusCode = 404\<rparr>" "Some ErrorObjectNotFound",
           THEN conjunct2, THEN conjunct2, THEN spec, of ?fn, THEN spec, of 0,
           THEN spec, of 1, THEN mp, OF n, THEN mp, OF e])
  have y: "fst (shouldRetry ?E (Some \<lparr>StatusCode = 429\<rparr>) None)"
    by (simp add: shouldRetry_def sim_env_def fs_ShouldRetryHTTP_def retryErrorCodes_def)
  show ?thesis by (rule conjI [OF n conjI [OF e conjI [OF p y]]])
qed

subsection \<open>Hashes\<close>

text \<open>
  C8. For every hash type other than MD5, \<^verbatim>\<open>Hash\<close> fails with the hash-not-supported
  error (and the empty string); for MD5 it returns the stored hash string and no error.
\<close>

theorem Hash_only_MD5:
  "(t \<noteq> fs_HashMD5 E \<longrightarrow> Hash E ob t = ([], Some ErrHashUnsupported))
   \<and> Hash E ob (fs_HashMD5 E) = (md5 ob, None)"
  by (simp add: Hash_def)

theorem Hash_only_MD5_witness:
  "2 \<noteq> fs_HashMD5 (sim_env [] \<lparr>Files = [], Folders = []\<rparr> [] 0)
   \<and> Hash (sim_env [] \<lparr>Files = [], Folders = []\<rparr> [] 0) (sim_object ''a.txt'') 2
       = ([], Some ErrHashUnsupported)
   \<and> Hash (sim_env [] \<lparr>Files = [], Folders = []\<rparr> [] 0) (sim_object ''a.txt'') 1 = ([], None)"
  using Hash_only_MD5 [of 2 "sim_env [] \<lparr>Files = [], Folders = []\<rparr> [] 0" "sim_object ''a.txt''"]
  by (simp add: sim_env_def sim_object_def)

subsection \<open>Object not found\<close>

lemma readMetaData_never_dir_not_found:
  "readMetaData E ob s \<noteq> Some (t, ob', Some ErrorDirNotFound)"
  by (auto simp: readMetaData_def split: option.splits sum.splits prod.splits list.splits)

lemma NewObject_never_dir_not_found:
  "NewObject E f rmt s \<noteq> Some (t, Inl ErrorDirNotFound)"
  by (auto simp: NewObject_def newObjectWithInfo_def readMetaData_never_dir_not_found
      split: option.splits prod.splits)

text \<open>
  C6. When the directory cache fails to resolve the path of an object with the
  directory-not-found error, reading the metadata of the object returns the
  object-not-found error, and so does \<^verbatim>\<open>NewObject\<close> on that path. Neither ever
  returns the directory-not-found error itself.
\<close>

theorem readMetaData_dir_not_found:
  assumes "dirCache_FindRootAndPath E f rmt False s = Some (s', Inl ErrorDirNotFound)"
  shows "(\<forall>ob. fs ob = f \<and> remote ob = rmt \<longrightarrow>
            readMetaData E ob s = Some (s', ob, Some ErrorObjectNotFound))
         \<and> NewObject E f rmt s = Some (s', Inl ErrorObjectNotFound)
         \<and> (\<forall>ob t ob'. readMetaData E ob s \<noteq> Some (t, ob', Some ErrorDirNotFound))
         \<and> (\<forall>t. NewObject E f rmt s \<noteq> Some (t, Inl ErrorDirNotFound))"
proof (intro conjI)
  show "\<forall>ob. fs ob = f \<and> remote ob = rmt \<longrightarrow>
            readMetaData E ob s = Some (s', ob, Some ErrorObjectNotFound)"
    using assms by (simp add: readMetaData_def)
  show "NewObject E f rmt s = Some (s', Inl ErrorObjectNotFound)"
    using assms by (simp add: NewObject_def newObjectWithInfo_def readMetaData_def)
  show "\<forall>ob t ob'. readMetaData E ob s \<noteq> Some (t, ob', Some ErrorDirNotFound)"
    by (simp add: readMetaData_never_dir_not_found)
  show "\<forall>t. NewObject E f rmt s \<noteq> Some (t, Inl ErrorDirNotFound)"
    by (simp add: NewObject_never_dir_not_found)
qed

theorem readMetaData_dir_not_found_witness:
  "dirCache_FindRootAndPath (sim_env [([], ''0'')] \<lparr>Files = [sim_file], Folders = []\<rparr> [] 0)
      sim_fs ''nodir/file.txt'' False sim_start = Some (sim_start, Inl ErrorDirNotFound)
   \<and> readMetaData (sim_env [([], ''0'')] \<lparr>Files = [sim_file], Folders = []\<rparr> [] 0)
        (sim_object ''nodir/file.txt'') sim_start
       = Some (sim_start, sim_object ''nodir/file.txt'', Some ErrorObjectNotFound)
   \<and> NewObject (sim_env [([], ''0'')] \<lparr>Files = [sim_file], Folders = []\<rparr> [] 0)
        sim_fs ''nodir/file.txt'' sim_start = Some (sim_start, Inl ErrorObjectNotFound)"
proof -
  let ?E = "sim_env [([], ''0'')] \<lparr>Files = [sim_file], Folders = []\<rparr> [] 0"
  have h: "dirCache_FindRootAndPath ?E sim_fs ''nodir/file.txt'' False sim_start
             = Some (sim_start, Inl ErrorDirNotFound)"
    by (simp add: sim_env_def sim_SplitPath_def)
  have o: "fs (sim_object ''nodir/file.txt'') = sim_fs \<and> remote (sim_object ''nodir/file.txt'') = ''nodir/file.txt''"
    by (simp add: sim_object_def)
  note r = readMetaData_dir_not_found [OF h]
  have m: "readMetaData ?E (sim_object ''nodir/file.txt'') sim_start
             = Some (sim_start, sim_object ''nodir/file.txt'', Some ErrorObjectNotFound)"
    by (rule r [THEN conjunct1, rule_format, OF o])
  show ?thesis by (rule conjI [OF h conjI [OF m r [THEN conjunct2, THEN conjunct1]]])
qed

subsection \<open>Traces of the paced calls\<close>

lemma srv_Call_calls:
  "srv_Call E req s = (s', rp) \<Longrightarrow> calls s' = calls s @ [(req, rp)]"
  by (auto simp: srv_Call_def split: prod.splits)

lemma openUpload_attempt_calls:
  assumes "openUpload_attempt E ob sz (s, v) = ((s', v'), r, x)"
  shows "\<exists>rq rp. calls s' = calls s @ [(rq, rp)] \<and> Path rq = ''/upload/open_file_upload.json''
           \<and> x = err_of rp"
proof -
  let ?rq = "\<lparr>Method = ''POST'', Path = ''/upload/open_file_upload.json'',
         Body = JSON (openUpload (SessionID (session (fs ob))) (obj_id ob) sz)\<rparr>"
  obtain s1 rp where c: "srv_Call E ?rq s = (s1, rp)" by (cases "srv_Call E ?rq s") auto
  with assms have "s' = s1" "x = err_of rp"
    by (simp_all add: openUpload_attempt_def shouldRetry_def)
  with srv_Call_calls [OF c] have "calls s' = calls s @ [(?rq, rp)] \<and> Path ?rq = ''/upload/open_file_upload.json''
           \<and> x = err_of rp" by simp
  then show ?thesis by blast
qed

lemma closeUpload_attempt_calls:
  assumes "closeUpload_attempt E ob sz opn (s, v) = ((s', v'), r, x)"
  shows "\<exists>rq rp. calls s' = calls s @ [(rq, rp)] \<and> Path rq = ''/upload/close_file_upload.json''
           \<and> x = err_of rp"
proof -
  let ?rq = "\<lparr>Method = ''POST'', Path = ''/upload/close_file_upload.json'',
         Body = JSON (closeUpload (SessionID (session (fs ob))) (obj_id ob) sz
                        (TempLocation opn))\<rparr>"
  obtain s1 rp where c: "srv_Call E ?rq s = (s1, rp)" by (cases "srv_Call E ?rq s") auto
  with assms have "s' = s1" "x = err_of rp"
    by (simp_all add: closeUpload_attempt_def shouldRetry_def)
  with srv_Call_calls [OF c] have "calls s' = calls s @ [(?rq, rp)] \<and> Path ?rq = ''/upload/close_file_upload.json''
           \<and> x = err_of rp" by simp
  then show ?thesis by blast
qed

lemma SetModTime_attempt_calls:
  assumes "SetModTime_attempt E ob t s = (s', r, x)"
  shows "\<exists>rq rp. calls s' = calls s @ [(rq, rp)] \<and> Path rq = ''/file/filesettings.json''
           \<and> x = err_of rp"
proof -
  let ?rq = "\<lparr>Method = ''PUT'', Path = ''/file/filesettings.json'',
         Body = JSON (modTimeFile (SessionID (session (fs ob))) (obj_id ob) (FormatInt (Unix t)))\<rparr>"
  obtain s1 rp where c: "srv_Call E ?rq s = (s1, rp)" by (cases "srv_Call E ?rq s") auto
  with assms have "s' = s1" "x = err_of rp"
    by (simp_all add: SetModTime_attempt_def shouldRetry_def)
  with srv_Call_calls [OF c] have "calls s' = calls s @ [(?rq, rp)] \<and> Path ?rq = ''/file/filesettings.json''
           \<and> x = err_of rp" by simp
  then show ?thesis by blast
qed

text \<open>A paced operation whose every attempt makes one call to a fixed path leaves a
  non-empty trace of calls to that path.\<close>

lemma paced_single_path:
  assumes ret: "pacer_Call fn a = Some (b, e)"
    and att: "\<And>c d r x. fn c = (d, r, x) \<Longrightarrow>
                \<exists>rq rp. calls (st d) = calls (st c) @ [(rq, rp)] \<and> Path rq = p \<and> x = err_of rp"
  shows "\<exists>tr. calls (st b) = calls (st a) @ tr \<and> tr \<noteq> [] \<and> (\<forall>x\<in>set tr. Path (fst x) = p)"
proof (rule pacer_Call_rule [OF ret,
      where I = "\<lambda>c. \<exists>tr. calls (st c) = calls (st a) @ tr \<and> (\<forall>x\<in>set tr. Path (fst x) = p)"
        and Q = "\<lambda>d x. \<exists>tr. calls (st d) = calls (st a) @ tr \<and> tr \<noteq> [] \<and> (\<forall>x\<in>set tr. Path (fst x) = p)"])
  show "\<exists>tr. calls (st a) = calls (st a) @ tr \<and> (\<forall>x\<in>set tr. Path (fst x) = p)"
    by simp
next
  fix c d r x
  assume "\<exists>tr. calls (st c) = calls (st a) @ tr \<and> (\<forall>x\<in>set tr. Path (fst x) = p)"
    and f: "fn c = (d, r, x)"
  then obtain tr where tr: "calls (st c) = calls (st a) @ tr" "\<forall>x\<in>set tr. Path (fst x) = p"
    by blast
  from att [OF f] obtain rq rp where
    d: "calls (st d) = calls (st c) @ [(rq, rp)]" "Path rq = p" by blast
  from tr d have "calls (st d) = calls (st a) @ (tr @ [(rq, rp)]) \<and>
      (\<forall>x\<in>set (tr @ [(rq, rp)]). Path (fst x) = p)" by simp
  then show "\<exists>tr. calls (st d) = calls (st a) @ tr \<and> (\<forall>x\<in>set tr. Path (fst x) = p)"
    by blast
  from tr d have "calls (st d) = calls (st a) @ (tr @ [(rq, rp)]) \<and> tr @ [(rq, rp)] \<noteq> [] \<and>
      (\<forall>x\<in>set (tr @ [(rq, rp)]). Path (fst x) = p)" by simp
  then show "\<exists>tr. calls (st d) = calls (st a) @ tr \<and> tr \<noteq> [] \<and> (\<forall>x\<in>set tr. Path (fst x) = p)"
    by blast
qed

lemma openUpload_trace:
  assumes "pacer_Call (openUpload_attempt E ob sz) (s, v) = Some ((s', v'), e)"
  shows "\<exists>tr. calls s' = calls s @ tr \<and> tr \<noteq> [] \<and>
           (\<forall>x\<in>set tr. Path (fst x) = ''/upload/open_file_upload.json'')"
proof -
  have "\<exists>tr. calls (fst (s', v')) = calls (fst (s, v)) @ tr \<and> tr \<noteq> [] \<and>
           (\<forall>x\<in>set tr. Path (fst x) = ''/upload/open_file_upload.json'')"
  proof (rule paced_single_path [OF assms])
    fix c d :: "'a state \<times> openUploadResponse" and r x
    assume "openUpload_attempt E ob sz c = (d, r, x)"
    then have "openUpload_attempt E ob sz (fst c, snd c) = ((fst d, snd d), r, x)" by simp
    from openUpload_attempt_calls [OF this]
    show "\<exists>rq rp. calls (fst d) = calls (fst c) @ [(rq, rp)] \<and>
            Path rq = ''/upload/open_file_upload.json'' \<and> x = err_of rp" .
  qed
  then show ?thesis by simp
qed

lemma accepted_chunks_append:
  "accepted_chunks (xs @ ys) = accepted_chunks xs @ accepted_chunks ys"
  by (simp add: accepted_chunks_def)

lemma accepted_chunks_single:
  "accepted_chunks [(rq, rp)] = (if is_chunk_send rq \<and> err_of rp = None then [rq] else [])"
  by (simp add: accepted_chunks_def)

lemma chunk_attempt_cases:
  assumes "chunk_attempt E ob opn off n (s, rd) = ((s', rd'), r, x)" and "0 < n"
  shows "(int (length rd) < n \<and> s' = s \<and> \<not> r \<and> x = Some io_EOF) \<or>
         (n \<le> int (length rd) \<and> int (length rd') + n = int (length rd) \<and>
          (\<exists>rq rp. calls s' = calls s @ [(rq, rp)] \<and>
             carries_chunk (SessionID (session (fs ob))) off n rq \<and> x = err_of rp))"
proof (cases "int (length rd) < n")
  case True
  with assms show ?thesis by (simp add: chunk_attempt_def io_CopyN_def)
next
  case False
  let ?rq = "\<lparr>Method = ''POST'', Path = ''/upload/upload_file_chunk.json'',
            Body = Multipart
              [FormFile ''file_data'' (remote ob) (take (nat n) rd),
               FormField ''session_id'' (SessionID (session (fs ob))),
               FormField ''session_id'' (SessionID (session (fs ob))),
               FormField ''file_id'' (obj_id ob),
               FormField ''temp_location'' (TempLocation opn),
               FormField ''chunk_offset'' (FormatInt off),
               FormField ''chunk_size'' (FormatInt n)]\<rparr>"
  obtain s1 rp where c: "srv_Call E ?rq s = (s1, rp)" by (cases "srv_Call E ?rq s") auto
  with assms False have e: "s' = s1" "x = err_of rp" "rd' = drop (nat n) rd"
    by (simp_all add: chunk_attempt_def io_CopyN_def shouldRetry_def)
  have k: "carries_chunk (SessionID (session (fs ob))) off n ?rq"
    using False assms(2) by (simp add: carries_chunk_def is_chunk_send_def)
  from e False assms(2) have l: "int (length rd') + n = int (length rd)" by simp
  from srv_Call_calls [OF c] e have "calls s' = calls s @ [(?rq, rp)]" by simp
  with k e(2) have "\<exists>rq rp. calls s' = calls s @ [(rq, rp)] \<and>
             carries_chunk (SessionID (session (fs ob))) off n rq \<and> x = err_of rp" by blast
  with False l show ?thesis by simp
qed

lemma carries_chunk_is_chunk_send: "carries_chunk sid off n rq \<Longrightarrow> is_chunk_send rq"
  by (simp add: carries_chunk_def)

lemma chunk_call_trace:
  fixes E :: "'w env"
  assumes ret: "pacer_Call (chunk_attempt E ob opn off n) st = Some (st', e)" and n: "0 < n"
  shows "\<exists>tr. calls (fst st') = calls (fst st) @ tr \<and>
           (\<forall>x\<in>set tr. carries_chunk (SessionID (session (fs ob))) off n (fst x)) \<and>
           (e = None \<longrightarrow>
              (\<exists>rq. accepted_chunks tr = [rq]) \<and> int (length (snd st')) + n \<le> int (length (snd st)))"
    (is "\<exists>tr. ?Q st' e tr")
proof (rule pacer_Call_rule [OF ret,
      where I = "\<lambda>c. \<exists>tr. calls (fst c) = calls (fst st) @ tr \<and>
           (\<forall>x\<in>set tr. carries_chunk (SessionID (session (fs ob))) off n (fst x)) \<and>
           accepted_chunks tr = [] \<and> length (snd c) \<le> length (snd st)"
        and Q = "\<lambda>d x. \<exists>tr. ?Q d x tr"])
  show "\<exists>tr. calls (fst st) = calls (fst st) @ tr \<and>
           (\<forall>x\<in>set tr. carries_chunk (SessionID (session (fs ob))) off n (fst x)) \<and>
           accepted_chunks tr = [] \<and> length (snd st) \<le> length (snd st)"
    by (simp add: accepted_chunks_def)
next
  fix c d :: "'w state \<times> string" and r x
  assume "\<exists>tr. calls (fst c) = calls (fst st) @ tr \<and>
           (\<forall>x\<in>set tr. carries_chunk (SessionID (session (fs ob))) off n (fst x)) \<and>
           accepted_chunks tr = [] \<and> length (snd c) \<le> length (snd st)"
  then obtain tr where tr: "calls (fst c) = calls (fst st) @ tr"
      "\<forall>x\<in>set tr. carries_chunk (SessionID (session (fs ob))) off n (fst x)"
      "accepted_chunks tr = []" "length (snd c) \<le> length (snd st)"
    by blast
  assume f: "chunk_attempt E ob opn off n c = (d, r, x)"
  then have f': "chunk_attempt E ob opn off n (fst c, snd c) = ((fst d, snd d), r, x)" by simp
  note cases = chunk_attempt_cases [OF f' n]
  {
    assume "r" and "x \<noteq> None"
    with cases obtain rq rp where
      d: "int (length (snd d)) + n = int (length (snd c))"
         "calls (fst d) = calls (fst c) @ [(rq, rp)]"
         "carries_chunk (SessionID (session (fs ob))) off n rq" "x = err_of rp"
      by blast
    from d(4) \<open>x \<noteq> None\<close> have "accepted_chunks [(rq, rp)] = []"
      by (simp add: accepted_chunks_single)
    with tr d n have "calls (fst d) = calls (fst st) @ (tr @ [(rq, rp)]) \<and>
           (\<forall>x\<in>set (tr @ [(rq, rp)]). carries_chunk (SessionID (session (fs ob))) off n (fst x)) \<and>
           accepted_chunks (tr @ [(rq, rp)]) = [] \<and> length (snd d) \<le> length (snd st)"
      by (simp add: accepted_chunks_append)
    then show "\<exists>tr. calls (fst d) = calls (fst st) @ tr \<and>
           (\<forall>x\<in>set tr. carries_chunk (SessionID (session (fs ob))) off n (fst x)) \<and>
           accepted_chunks tr = [] \<and> length (snd d) \<le> length (snd st)"
      by blast
  }
  {
    assume "\<not> (r \<and> x \<noteq> None)"
    from cases show "\<exists>tr. ?Q d x tr"
    proof
      assume "int (length (snd c)) < n \<and> fst d = fst c \<and> \<not> r \<and> x = Some io_EOF"
      with tr have "?Q d x tr" by simp
      then show ?thesis by blast
    next
      assume "n \<le> int (length (snd c)) \<and> int (length (snd d)) + n = int (length (snd c)) \<and>
          (\<exists>rq rp. calls (fst d) = calls (fst c) @ [(rq, rp)] \<and>
             carries_chunk (SessionID (session (fs ob))) off n rq \<and> x = err_of rp)"
      then obtain rq rp where
        d: "int (length (snd d)) + n = int (length (snd c))"
           "calls (fst d) = calls (fst c) @ [(rq, rp)]"
           "carries_chunk (SessionID (session (fs ob))) off n rq" "x = err_of rp"
        by blast
      have "x = None \<longrightarrow> accepted_chunks (tr @ [(rq, rp)]) = [rq]"
        using d(3,4) tr(3)
        by (simp add: accepted_chunks_append accepted_chunks_single carries_chunk_is_chunk_send)
      with tr d have "?Q d x (tr @ [(rq, rp)])" by auto
      then show ?thesis by blast
    qed
  }
qed

lemma chunk_count_step:
  assumes "0 < R" and "n = (if chunkSize > R then R else chunkSize)"
  shows "1 + (max (R - n) 0 + chunkSize - 1) div chunkSize = (max R 0 + chunkSize - 1) div chunkSize"
    and "0 < n" and "n \<le> R"
    and "0 < (max (R - n) 0 + chunkSize - 1) div chunkSize \<Longrightarrow> n = chunkSize"
  using assms by (auto simp: chunkSize_def split: if_splits)

lemma Update_loop_trace:
  fixes E :: "'w env"
  assumes "Update_loop E ob opn off R cnt st = Some (st', e)"
  shows "\<exists>tr. calls (fst st') = calls (fst st) @ tr \<and>
           (\<forall>x\<in>set tr. \<exists>k n. carries_chunk (SessionID (session (fs ob))) k n (fst x)) \<and>
           (R \<le> 0 \<longrightarrow> tr = []) \<and>
           (e = None \<longrightarrow>
              int (length (accepted_chunks tr)) = (max R 0 + chunkSize - 1) div chunkSize \<and>
              (\<forall>i<length (accepted_chunks tr).
                 form_values ''chunk_offset'' (Body (accepted_chunks tr ! i))
                   = [FormatInt (off + int i * chunkSize)]) \<and>
              (\<Sum>rq\<leftarrow>accepted_chunks tr. int (length (file_data (Body rq)))) = max R 0 \<and>
              int (length (snd st')) + max R 0 \<le> int (length (snd st)))"
  using assms
proof (induction "nat R" arbitrary: off R cnt st rule: less_induct)
  case less
  let ?sid = "SessionID (session (fs ob))"
  show ?case
  proof (cases "0 < R")
    case False
    with less.prems have "st' = st" "e = None" by (simp_all add: Update_loop.simps)
    with False have "calls (fst st') = calls (fst st) @ [] \<and>
           (\<forall>x\<in>set []. \<exists>k n. carries_chunk ?sid k n (fst x)) \<and>
           (R \<le> 0 \<longrightarrow> [] = ([] :: (request \<times> reply) list)) \<and>
           (e = None \<longrightarrow>
              int (length (accepted_chunks [])) = (max R 0 + chunkSize - 1) div chunkSize \<and>
              (\<forall>i<length (accepted_chunks []).
                 form_values ''chunk_offset'' (Body (accepted_chunks [] ! i))
                   = [FormatInt (off + int i * chunkSize)]) \<and>
              (\<Sum>rq\<leftarrow>accepted_chunks []. int (length (file_data (Body rq)))) = max R 0 \<and>
              int (length (snd st')) + max R 0 \<le> int (length (snd st)))"
      by (simp add: accepted_chunks_def chunkSize_def)
    then show ?thesis by blast
  next
    case True
    define n where "n = (if chunkSize > R then R else chunkSize)"
    note ar = chunk_count_step [OF True n_def]
    from less.prems True
    have body: "(case pacer_Call (chunk_attempt E ob opn off n) st of
             None \<Rightarrow> None
           | Some (st1, Some err) \<Rightarrow> Some (st1, Some (errors_Wrap err ''failed to create file''))
           | Some (st1, None) \<Rightarrow>
               Update_loop E ob opn (off + n) (R - n) (cnt + 1) st1) = Some (st', e)"
      unfolding n_def by (subst (asm) Update_loop.simps) (simp add: Let_def split: if_splits)
    then obtain st1 e1 where p: "pacer_Call (chunk_attempt E ob opn off n) st = Some (st1, e1)"
      by (cases "pacer_Call (chunk_attempt E ob opn off n) st") auto
    from chunk_call_trace [OF p ar(2)] obtain tr1 where
      t1: "calls (fst st1) = calls (fst st) @ tr1"
          "\<forall>x\<in>set tr1. carries_chunk ?sid off n (fst x)"
          "e1 = None \<longrightarrow> (\<exists>rq. accepted_chunks tr1 = [rq]) \<and>
              int (length (snd st1)) + n \<le> int (length (snd st))"
      by blast
    show ?thesis
    proof (cases e1)
      case (Some err)
      with body p have "st' = st1" "e \<noteq> None" by auto
      with t1 True have "calls (fst st') = calls (fst st) @ tr1 \<and>
           (\<forall>x\<in>set tr1. \<exists>k n. carries_chunk ?sid k n (fst x)) \<and>
           (R \<le> 0 \<longrightarrow> tr1 = []) \<and>
           (e = None \<longrightarrow>
              int (length (accepted_chunks tr1)) = (max R 0 + chunkSize - 1) div chunkSize \<and>
              (\<forall>i<length (accepted_chunks tr1).
                 form_values ''chunk_offset'' (Body (accepted_chunks tr1 ! i))
                   = [FormatInt (off + int i * chunkSize)]) \<and>
              (\<Sum>rq\<leftarrow>accepted_chunks tr1. int (length (file_data (Body rq)))) = max R 0 \<and>
              int (length (snd st')) + max R 0 \<le> int (length (snd st)))"
        by auto
      then show ?thesis by blast
    next
      case None
      with body p have rec: "Update_loop E ob opn (off + n) (R - n) (cnt + 1) st1 = Some (st', e)"
        by simp
      from None t1(3) obtain rq where
        rq: "accepted_chunks tr1 = [rq]" and
        len1: "int (length (snd st1)) + n \<le> int (length (snd st))"
        by blast
      have "rq \<in> set (accepted_chunks tr1)" using rq by simp
      then have "rq \<in> fst ` set tr1" by (force simp: accepted_chunks_def)
      with t1(2) have crq: "carries_chunk ?sid off n rq" by auto
      have "nat (R - n) < nat R" using ar(2,3) True by simp
      from less.hyps [OF this rec] obtain tr2 where
        t2: "calls (fst st') = calls (fst st1) @ tr2"
            "\<forall>x\<in>set tr2. \<exists>k n. carries_chunk ?sid k n (fst x)"
            "e = None \<longrightarrow>
              int (length (accepted_chunks tr2)) = (max (R - n) 0 + chunkSize - 1) div chunkSize \<and>
              (\<forall>i<length (accepted_chunks tr2).
                 form_values ''chunk_offset'' (Body (accepted_chunks tr2 ! i))
                   = [FormatInt (off + n + int i * chunkSize)]) \<and>
              (\<Sum>rq\<leftarrow>accepted_chunks tr2. int (length (file_data (Body rq)))) = max (R - n) 0 \<and>
              int (length (snd st')) + max (R - n) 0 \<le> int (length (snd st1))"
        by blast
      let ?tr = "tr1 @ tr2"
      have acc: "accepted_chunks ?tr = rq # accepted_chunks tr2"
        by (simp add: accepted_chunks_append rq)
      have a: "calls (fst st') = calls (fst st) @ ?tr" using t1(1) t2(1) by simp
      have b: "\<forall>x\<in>set ?tr. \<exists>k n. carries_chunk ?sid k n (fst x)"
        using t1(2) t2(2) by auto
      have c: "R \<le> 0 \<longrightarrow> ?tr = []" using True by simp
      have d: "int (length (accepted_chunks ?tr)) = (max R 0 + chunkSize - 1) div chunkSize"
        if "e = None"
        using that t2(3) ar(1) by (simp add: acc)
      have f: "form_values ''chunk_offset'' (Body (accepted_chunks ?tr ! i))
                   = [FormatInt (off + int i * chunkSize)]"
        if "e = None" and i: "i < length (accepted_chunks ?tr)" for i
      proof (cases i)
        case 0
        with crq show ?thesis by (simp add: acc carries_chunk_def)
      next
        case (Suc j)
        with i have j: "j < length (accepted_chunks tr2)" by (simp add: acc)
        with that(1) t2(3) have "0 < (max (R - n) 0 + chunkSize - 1) div chunkSize" by linarith
        from ar(4) [OF this] have "n = chunkSize" .
        moreover from j that(1) t2(3)
        have "form_values ''chunk_offset'' (Body (accepted_chunks tr2 ! j))
                   = [FormatInt (off + n + int j * chunkSize)]" by blast
        ultimately show ?thesis using Suc by (simp add: acc algebra_simps)
      qed
      have g: "(\<Sum>rq\<leftarrow>accepted_chunks ?tr. int (length (file_data (Body rq)))) = max R 0"
        if "e = None"
        using that t2(3) crq ar(2,3) True by (simp add: acc carries_chunk_def)
      have h: "int (length (snd st')) + max R 0 \<le> int (length (snd st))" if "e = None"
        using that t2(3) len1 ar(2,3) True by simp
      from a b c d f g h show ?thesis by blast
    qed
  qed
qed

lemma closeUpload_trace:
  fixes E :: "'w env"
  assumes "pacer_Call (closeUpload_attempt E ob sz opn) (s, v) = Some ((s', v'), e)"
  shows "\<exists>tr. calls s' = calls s @ tr \<and> tr \<noteq> [] \<and>
           (\<forall>x\<in>set tr. Path (fst x) = ''/upload/close_file_upload.json'')"
proof -
  have "\<exists>tr. calls (fst (s', v')) = calls (fst (s, v)) @ tr \<and> tr \<noteq> [] \<and>
           (\<forall>x\<in>set tr. Path (fst x) = ''/upload/close_file_upload.json'')"
  proof (rule paced_single_path [OF assms])
    fix c d :: "'w state \<times> closeUploadResponse" and r x
    assume "closeUpload_attempt E ob sz opn c = (d, r, x)"
    then have "closeUpload_attempt E ob sz opn (fst c, snd c) = ((fst d, snd d), r, x)" by simp
    from closeUpload_attempt_calls [OF this]
    show "\<exists>rq rp. calls (fst d) = calls (fst c) @ [(rq, rp)] \<and>
            Path rq = ''/upload/close_file_upload.json'' \<and> x = err_of rp" .
  qed
  then show ?thesis by simp
qed

lemma SetModTime_trace:
  fixes E :: "'w env"
  assumes "SetModTime E ob t s = Some (s', e)"
  shows "\<exists>tr. calls s' = calls s @ tr \<and> tr \<noteq> [] \<and>
           (\<forall>x\<in>set tr. Path (fst x) = ''/file/filesettings.json'')"
proof (rule paced_single_path [where st = "\<lambda>s. s"])
  show "pacer_Call (SetModTime_attempt E ob t) s = Some (s', e)"
    using assms by (simp add: SetModTime_def)
next
  fix c d :: "'w state" and r x
  assume "SetModTime_attempt E ob t c = (d, r, x)"
  from SetModTime_attempt_calls [OF this]
  show "\<exists>rq rp. calls d = calls c @ [(rq, rp)] \<and> Path rq = ''/file/filesettings.json'' \<and> x = err_of rp" .
qed

lemma sent_since_append: "calls s' = calls s @ tr \<Longrightarrow> sent_since s s' = tr"
  by (simp add: sent_since_def)

text \<open>The trace of an upload that returned: the open calls, the chunk calls, then the
  close calls and the calls setting the modification time.\<close>

lemma Update_trace:
  fixes E :: "'w env"
  assumes "Update E ob rd src s = Some ((s', rd'), ob', err)"
  shows "\<exists>tr1 tr2 tr3. sent_since s s' = tr1 @ tr2 @ tr3 \<and> tr1 \<noteq> [] \<and>
           (\<forall>x\<in>set tr1. Path (fst x) = ''/upload/open_file_upload.json'') \<and>
           (\<forall>x\<in>set tr2. \<exists>k n. carries_chunk (SessionID (session (fs ob))) k n (fst x)) \<and>
           (\<forall>x\<in>set tr3. Path (fst x) = ''/upload/close_file_upload.json'' \<or>
                          Path (fst x) = ''/file/filesettings.json'') \<and>
           (info_Size src \<le> 0 \<longrightarrow> tr2 = []) \<and>
           (err = None \<longrightarrow>
              (\<exists>x\<in>set tr3. Path (fst x) = ''/upload/close_file_upload.json'') \<and>
              int (length (accepted_chunks tr2)) = (max (info_Size src) 0 + chunkSize - 1) div chunkSize \<and>
              (\<forall>i<length (accepted_chunks tr2).
                 form_values ''chunk_offset'' (Body (accepted_chunks tr2 ! i))
                   = [FormatInt (int i * chunkSize)]) \<and>
              (\<Sum>rq\<leftarrow>accepted_chunks tr2. int (length (file_data (Body rq)))) = max (info_Size src) 0 \<and>
              int (length rd') + max (info_Size src) 0 \<le> int (length rd))"
    (is "\<exists>tr1 tr2 tr3. ?P tr1 tr2 tr3")
proof -
  let ?sz = "info_Size src"
  let ?sid = "SessionID (session (fs ob))"
  from assms obtain s1 opn e1 where
    o: "pacer_Call (openUpload_attempt E ob ?sz) (s, \<lparr>TempLocation = []\<rparr>) = Some ((s1, opn), e1)"
    by (cases "pacer_Call (openUpload_attempt E ob ?sz) (s, \<lparr>TempLocation = []\<rparr>)")
       (auto simp: Update_def Let_def)
  from openUpload_trace [OF o] obtain tr1 where
    t1: "calls s1 = calls s @ tr1" "tr1 \<noteq> []"
        "\<forall>x\<in>set tr1. Path (fst x) = ''/upload/open_file_upload.json''"
    by blast
  show ?thesis
  proof (cases e1)
    case (Some e)
    with assms o have "s' = s1" "err \<noteq> None" by (auto simp: Update_def Let_def)
    with t1 have "?P tr1 [] []" by (auto simp: sent_since_append)
    then show ?thesis by blast
  next
    case None
    with assms o obtain st2 e2 where
      l: "Update_loop E ob opn 0 ?sz 0 (s1, rd) = Some (st2, e2)"
      by (cases "Update_loop E ob opn 0 ?sz 0 (s1, rd)") (auto simp: Update_def Let_def)
    from Update_loop_trace [OF l] obtain tr2 where
      t2: "calls (fst st2) = calls s1 @ tr2"
          "\<forall>x\<in>set tr2. \<exists>k n. carries_chunk ?sid k n (fst x)"
          "?sz \<le> 0 \<longrightarrow> tr2 = []"
          "e2 = None \<longrightarrow>
              int (length (accepted_chunks tr2)) = (max ?sz 0 + chunkSize - 1) div chunkSize \<and>
              (\<forall>i<length (accepted_chunks tr2).
                 form_values ''chunk_offset'' (Body (accepted_chunks tr2 ! i))
                   = [FormatInt (0 + int i * chunkSize)]) \<and>
              (\<Sum>rq\<leftarrow>accepted_chunks tr2. int (length (file_data (Body rq)))) = max ?sz 0 \<and>
              int (length (snd st2)) + max ?sz 0 \<le> int (length rd)"
      by auto
    show ?thesis
    proof (cases e2)
      case (Some e)
      with assms o None l have "s' = fst st2" "err \<noteq> None"
        by (auto simp: Update_def Let_def)
      with t1 t2 have "?P tr1 tr2 []" by (auto simp: sent_since_append)
      then show ?thesis by blast
    next
      case e2: None
      obtain s2 rd2 where st2: "st2 = (s2, rd2)" by (cases st2)
      from assms o None l e2 st2 obtain s3 cl e3 where
        c: "pacer_Call (closeUpload_attempt E ob ?sz opn)
              (s2, \<lparr>closeUploadResponse.FileID = [], closeUploadResponse.Size = 0\<rparr>)
            = Some ((s3, cl), e3)"
        by (cases "pacer_Call (closeUpload_attempt E ob ?sz opn)
              (s2, \<lparr>closeUploadResponse.FileID = [], closeUploadResponse.Size = 0\<rparr>)")
           (auto simp: Update_def Let_def)
      from closeUpload_trace [OF c] obtain tr3 where
        t3: "calls s3 = calls s2 @ tr3" "tr3 \<noteq> []"
            "\<forall>x\<in>set tr3. Path (fst x) = ''/upload/close_file_upload.json''"
        by blast
      from t1 t2 t3 st2 have cs3: "calls s3 = calls s @ tr1 @ tr2 @ tr3" by simp
      show ?thesis
      proof (cases e3)
        case (Some e)
        with assms o None l e2 st2 c have "s' = s3" "err \<noteq> None"
          by (auto simp: Update_def Let_def)
        with t1 t2 t3 cs3 have "?P tr1 tr2 tr3" by (auto simp: sent_since_append)
        then show ?thesis by blast
      next
        case e3: None
        let ?ob = "ob\<lparr>obj_id := closeUploadResponse.FileID cl,
                        obj_size := closeUploadResponse.Size cl,
                        modTime := info_ModTime src\<rparr>"
        from assms o None l e2 st2 c e3 obtain s4 where
          m: "SetModTime E ?ob (info_ModTime src) s3 = Some (s4, err)" and
          fin: "s' = s4" "rd' = rd2"
          by (cases "SetModTime E ?ob (info_ModTime src) s3") (auto simp: Update_def Let_def)
        from SetModTime_trace [OF m] obtain tr4 where
          t4: "calls s4 = calls s3 @ tr4"
              "\<forall>x\<in>set tr4. Path (fst x) = ''/file/filesettings.json''"
          by blast
        from cs3 t4 fin have a: "sent_since s s' = tr1 @ tr2 @ (tr3 @ tr4)"
          by (simp add: sent_since_append)
        have b: "\<forall>x\<in>set (tr3 @ tr4). Path (fst x) = ''/upload/close_file_upload.json'' \<or>
                          Path (fst x) = ''/file/filesettings.json''"
          using t3(3) t4(2) by auto
        have d: "\<exists>x\<in>set (tr3 @ tr4). Path (fst x) = ''/upload/close_file_upload.json''"
          using t3(2,3) by (cases tr3) auto
        from t2(4) e2 st2 fin have f:
             "int (length (accepted_chunks tr2)) = (max ?sz 0 + chunkSize - 1) div chunkSize \<and>
              (\<forall>i<length (accepted_chunks tr2).
                 form_values ''chunk_offset'' (Body (accepted_chunks tr2 ! i))
                   = [FormatInt (int i * chunkSize)]) \<and>
              (\<Sum>rq\<leftarrow>accepted_chunks tr2. int (length (file_data (Body rq)))) = max ?sz 0 \<and>
              int (length rd') + max ?sz 0 \<le> int (length rd)"
          by simp
        from a b d f t1(2,3) t2(2,3) have "?P tr1 tr2 (tr3 @ tr4)" by blast
        then show ?thesis by blast
      qed
    qed
  qed
qed

lemma chunk_sends_append: "chunk_sends (xs @ ys) = chunk_sends xs @ chunk_sends ys"
  by (simp add: chunk_sends_def)

lemma no_chunk_on_other_path:
  assumes "\<forall>x\<in>set tr. Path (fst x) = p \<or> Path (fst x) = q"
    and "p \<noteq> ''/upload/upload_file_chunk.json''" and "q \<noteq> ''/upload/upload_file_chunk.json''"
  shows "chunk_sends tr = []" and "accepted_chunks tr = []"
  using assms by (auto simp: chunk_sends_def accepted_chunks_def is_chunk_send_def filter_empty_conv)

lemma set_chunk_sends: "set (chunk_sends tr) \<subseteq> fst ` set tr"
  by (force simp: chunk_sends_def)

lemma ceiling_chunks:
  "\<lceil>real_of_int S / real_of_int chunkSize\<rceil> = (S + chunkSize - 1) div chunkSize"
proof -
  have "\<lceil>real_of_int S / real_of_int chunkSize\<rceil> = - (- S div chunkSize)"
    by (rule ceiling_divide_eq_div)
  also have "\<dots> = (S + chunkSize - 1) div chunkSize"
    by (simp add: chunkSize_def)
  finally show ?thesis .
qed

lemma requestedI: "x \<in> set tr \<Longrightarrow> Path (fst x) = p \<Longrightarrow> requested p tr"
  unfolding requested_def by (cases x) (auto simp: image_iff intro!: bexI [of _ x])

lemma chunk_sends_Nil: "chunk_sends [] = []"
  by (simp add: chunk_sends_def)

lemma chunk_sends_without_error:
  "\<forall>x\<in>set tr. err_of (snd x) = None \<Longrightarrow> chunk_sends tr = accepted_chunks tr"
  by (induction tr) (auto simp: chunk_sends_def accepted_chunks_def)

text \<open>
  C1, as amended. For every upload by \<^verbatim>\<open>Update\<close> that completes without error, of a
  stream of declared size \<open>S\<close> with the chunk size \<open>C\<close> of 10 MiB: the chunk sends that
  were answered without error number exactly \<open>\<lceil>max S 0 / C\<rceil>\<close>, the \<open>i\<close>-th of them
  carries the byte offset \<open>i * C\<close>, and their byte lengths sum to \<open>max S 0\<close>. When no
  call of the upload was answered with an error, these are all the chunk sends of the
  upload. The open-upload and the close-upload call are both performed, and when
  \<open>S \<le> 0\<close> no chunk is sent at all.
\<close>

theorem Update_chunks:
  fixes E :: "'w env"
  assumes "Update E ob rd src s = Some ((s', rd'), ob', None)"
  shows "int (length (accepted_chunks (sent_since s s')))
           = \<lceil>real_of_int (max (info_Size src) 0) / real_of_int chunkSize\<rceil>
       \<and> (\<forall>i<length (accepted_chunks (sent_since s s')).
             form_values ''chunk_offset'' (Body (accepted_chunks (sent_since s s') ! i))
               = [FormatInt (int i * chunkSize)])
       \<and> (\<Sum>rq\<leftarrow>accepted_chunks (sent_since s s'). int (length (file_data (Body rq))))
           = max (info_Size src) 0
       \<and> ((\<forall>x\<in>set (sent_since s s'). err_of (snd x) = None) \<longrightarrow>
            chunk_sends (sent_since s s') = accepted_chunks (sent_since s s'))
       \<and> (info_Size src \<le> 0 \<longrightarrow> chunk_sends (sent_since s s') = [])
       \<and> requested ''/upload/open_file_upload.json'' (sent_since s s')
       \<and> requested ''/upload/close_file_upload.json'' (sent_since s s')"
proof -
  from Update_trace [OF assms] obtain tr1 tr2 tr3 where
    t: "sent_since s s' = tr1 @ tr2 @ tr3" "tr1 \<noteq> []"
       "\<forall>x\<in>set tr1. Path (fst x) = ''/upload/open_file_upload.json''"
       "\<forall>x\<in>set tr3. Path (fst x) = ''/upload/close_file_upload.json'' \<or>
                          Path (fst x) = ''/file/filesettings.json''"
       "info_Size src \<le> 0 \<longrightarrow> tr2 = []"
       "\<exists>x\<in>set tr3. Path (fst x) = ''/upload/close_file_upload.json''"
       "int (length (accepted_chunks tr2)) = (max (info_Size src) 0 + chunkSize - 1) div chunkSize"
       "\<forall>i<length (accepted_chunks tr2).
                 form_values ''chunk_offset'' (Body (accepted_chunks tr2 ! i))
                   = [FormatInt (int i * chunkSize)]"
       "(\<Sum>rq\<leftarrow>accepted_chunks tr2. int (length (file_data (Body rq)))) = max (info_Size src) 0"
    by blast
  from t(3) have "\<forall>x\<in>set tr1. Path (fst x) = ''/upload/open_file_upload.json'' \<or>
      Path (fst x) = ''/upload/open_file_upload.json''" by simp
  from no_chunk_on_other_path [OF this]
  have n1: "chunk_sends tr1 = []" "accepted_chunks tr1 = []" by simp_all
  from no_chunk_on_other_path [OF t(4)]
  have n3: "chunk_sends tr3 = []" "accepted_chunks tr3 = []" by simp_all
  have acc: "accepted_chunks (sent_since s s') = accepted_chunks tr2"
    by (simp add: t(1) accepted_chunks_append n1 n3)
  have cs: "chunk_sends (sent_since s s') = chunk_sends tr2"
    by (simp add: t(1) chunk_sends_append n1 n3)
  have a: "int (length (accepted_chunks (sent_since s s')))
           = \<lceil>real_of_int (max (info_Size src) 0) / real_of_int chunkSize\<rceil>"
    using t(7) by (simp only: acc ceiling_chunks)
  have b: "\<forall>i<length (accepted_chunks (sent_since s s')).
             form_values ''chunk_offset'' (Body (accepted_chunks (sent_since s s') ! i))
               = [FormatInt (int i * chunkSize)]"
    using t(8) by (simp add: acc)
  have c: "(\<Sum>rq\<leftarrow>accepted_chunks (sent_since s s'). int (length (file_data (Body rq))))
           = max (info_Size src) 0"
    using t(9) by (simp only: acc)
  have d: "info_Size src \<le> 0 \<longrightarrow> chunk_sends (sent_since s s') = []"
    using t(5) by (simp add: cs chunk_sends_Nil)
  from t(2) obtain x where "x \<in> set tr1" by (cases tr1) auto
  with t(3) have "x \<in> set (sent_since s s')" "Path (fst x) = ''/upload/open_file_upload.json''"
    by (simp_all add: t(1))
  then have e: "requested ''/upload/open_file_upload.json'' (sent_since s s')"
    by (rule requestedI)
  from t(6) obtain y where "y \<in> set tr3" "Path (fst y) = ''/upload/close_file_upload.json''"
    by blast
  then have "y \<in> set (sent_since s s')" "Path (fst y) = ''/upload/close_file_upload.json''"
    by (simp_all add: t(1))
  then have f: "requested ''/upload/close_file_upload.json'' (sent_since s s')"
    by (rule requestedI)
  have g: "(\<forall>x\<in>set (sent_since s s'). err_of (snd x) = None) \<longrightarrow>
            chunk_sends (sent_since s s') = accepted_chunks (sent_since s s')"
    by (simp add: chunk_sends_without_error)
  from a b c g d e f show ?thesis by (intro conjI)
qed

lemma sent_since_same: "sent_since s s = []"
  by (simp add: sent_since_def)

lemma chunk_attempt_session_id:
  fixes E :: "'w env"
  assumes "chunk_attempt E ob opn off n (s, rd) = ((s1, rd1), r, x)"
  shows "\<forall>rq\<in>set (chunk_sends (sent_since s s1)).
           form_values ''session_id'' (Body rq)
             = [SessionID (session (fs ob)), SessionID (session (fs ob))]"
proof (cases "int (length rd) < n")
  case True
  with assms have "s1 = s" by (simp add: chunk_attempt_def io_CopyN_def)
  then show ?thesis by (simp add: sent_since_same chunk_sends_Nil)
next
  case False
  let ?rq = "\<lparr>Method = ''POST'', Path = ''/upload/upload_file_chunk.json'',
            Body = Multipart
              [FormFile ''file_data'' (remote ob) (take (nat n) rd),
               FormField ''session_id'' (SessionID (session (fs ob))),
               FormField ''session_id'' (SessionID (session (fs ob))),
               FormField ''file_id'' (obj_id ob),
               FormField ''temp_location'' (TempLocation opn),
               FormField ''chunk_offset'' (FormatInt off),
               FormField ''chunk_size'' (FormatInt n)]\<rparr>"
  obtain s2 rp where c: "srv_Call E ?rq s = (s2, rp)" by (cases "srv_Call E ?rq s") auto
  with assms False have "s1 = s2" by (simp add: chunk_attempt_def io_CopyN_def)
  with srv_Call_calls [OF c] have "sent_since s s1 = [(?rq, rp)]"
    by (simp add: sent_since_append)
  then show ?thesis by (simp add: chunk_sends_def)
qed

lemma Update_session_id:
  fixes E :: "'w env"
  assumes "Update E ob rd src s = Some ((s', rd'), ob', err)"
  shows "\<forall>rq\<in>set (chunk_sends (sent_since s s')).
           form_values ''session_id'' (Body rq)
             = [SessionID (session (fs ob)), SessionID (session (fs ob))]"
proof -
  from Update_trace [OF assms] obtain tr1 tr2 tr3 where
    t: "sent_since s s' = tr1 @ tr2 @ tr3"
       "\<forall>x\<in>set tr1. Path (fst x) = ''/upload/open_file_upload.json''"
       "\<forall>x\<in>set tr2. \<exists>k n. carries_chunk (SessionID (session (fs ob))) k n (fst x)"
       "\<forall>x\<in>set tr3. Path (fst x) = ''/upload/close_file_upload.json'' \<or>
                          Path (fst x) = ''/file/filesettings.json''"
    by blast
  from t(2) have "\<forall>x\<in>set tr1. Path (fst x) = ''/upload/open_file_upload.json'' \<or>
      Path (fst x) = ''/upload/open_file_upload.json''" by simp
  from no_chunk_on_other_path(1) [OF this] have n1: "chunk_sends tr1 = []" by simp
  from no_chunk_on_other_path(1) [OF t(4)] have n3: "chunk_sends tr3 = []" by simp
  have cs: "chunk_sends (sent_since s s') = chunk_sends tr2"
    by (simp add: t(1) chunk_sends_append n1 n3)
  show ?thesis
  proof
    fix rq assume "rq \<in> set (chunk_sends (sent_since s s'))"
    with cs set_chunk_sends [of tr2] have "rq \<in> fst ` set tr2" by auto
    with t(3) obtain k n where "carries_chunk (SessionID (session (fs ob))) k n rq" by auto
    then show "form_values ''session_id'' (Body rq)
             = [SessionID (session (fs ob)), SessionID (session (fs ob))]"
      by (simp add: carries_chunk_def)
  qed
qed

text \<open>
  C7. Every chunk request sent during \<^verbatim>\<open>Update\<close> carries the form field
  \<^verbatim>\<open>session_id\<close> twice, both times with the session ID: the request of every attempt
  of the paced chunk operation does, and so does every chunk request in the trace of an
  \<^verbatim>\<open>Update\<close> that has returned.
\<close>

theorem chunk_session_id_twice:
  fixes E :: "'w env"
  shows "(\<forall>s1 rd1 r x. chunk_attempt E ob opn off n (s, rd) = ((s1, rd1), r, x) \<longrightarrow>
            (\<forall>rq\<in>set (chunk_sends (sent_since s s1)).
               form_values ''session_id'' (Body rq)
                 = [SessionID (session (fs ob)), SessionID (session (fs ob))]))
       \<and> (\<forall>s' rd' ob' err. Update E ob rd src s = Some ((s', rd'), ob', err) \<longrightarrow>
            (\<forall>rq\<in>set (chunk_sends (sent_since s s')).
               form_values ''session_id'' (Body rq)
                 = [SessionID (session (fs ob)), SessionID (session (fs ob))]))"
  using chunk_attempt_session_id [of E ob opn off n s rd] Update_session_id [of E ob rd src s]
  by blast

lemmas sim_upload_simps = Update_def Update_loop.simps pacer_Call.simps openUpload_attempt_def
  chunk_attempt_def closeUpload_attempt_def SetModTime_def SetModTime_attempt_def
  srv_Call_def shouldRetry_def fs_ShouldRetryHTTP_def retryErrorCodes_def io_CopyN_def
  sim_env_def sim_srv_def sim_start_def sim_object_def sim_fs_def chunkSize_def
  into_openUploadResponse_def into_closeUploadResponse_def Let_def

lemma sim_upload_two_chunks:
  "\<exists>s' rd' ob'. Update (sim_env [] \<lparr>Files = [], Folders = []\<rparr> [] 0) (sim_object ''a.txt'')
     (replicate 10485761 (CHR ''a''))
     \<lparr>info_Remote = ''a.txt'', info_Size = 10485761, info_ModTime = time_Unix 5 0\<rparr> sim_start
   = Some ((s', rd'), ob', None) \<and> (\<forall>x\<in>set (sent_since sim_start s'). err_of (snd x) = None)"
  by (simp add: sim_upload_simps sent_since_def)

lemma sim_upload_empty:
  "\<exists>st ob'. Update (sim_env [] \<lparr>Files = [], Folders = []\<rparr> [] 0) (sim_object ''a.txt'') []
     \<lparr>info_Remote = ''a.txt'', info_Size = 0, info_ModTime = time_Unix 5 0\<rparr> sim_start
   = Some (st, ob', None)"
  by (simp add: sim_upload_simps)

theorem Update_chunks_witness:
  "(\<exists>s' rd' ob'.
      Update (sim_env [] \<lparr>Files = [], Folders = []\<rparr> [] 0) (sim_object ''a.txt'')
        (replicate 10485761 (CHR ''a''))
        \<lparr>info_Remote = ''a.txt'', info_Size = 10485761, info_ModTime = time_Unix 5 0\<rparr> sim_start
        = Some ((s', rd'), ob', None)
      \<and> length (accepted_chunks (sent_since sim_start s')) = 2
      \<and> length (chunk_sends (sent_since sim_start s')) = 2
      \<and> form_values ''chunk_offset'' (Body (accepted_chunks (sent_since sim_start s') ! 0)) = [''0'']
      \<and> form_values ''chunk_offset'' (Body (accepted_chunks (sent_since sim_start s') ! 1))
           = [''10485760'']
      \<and> (\<Sum>rq\<leftarrow>accepted_chunks (sent_since sim_start s'). int (length (file_data (Body rq))))
           = 10485761)
   \<and> (\<exists>s' rd' ob'.
      Update (sim_env [] \<lparr>Files = [], Folders = []\<rparr> [] 0) (sim_object ''a.txt'') []
        \<lparr>info_Remote = ''a.txt'', info_Size = 0, info_ModTime = time_Unix 5 0\<rparr> sim_start
        = Some ((s', rd'), ob', None)
      \<and> chunk_sends (sent_since sim_start s') = []
      \<and> requested ''/upload/open_file_upload.json'' (sent_since sim_start s')
      \<and> requested ''/upload/close_file_upload.json'' (sent_since sim_start s'))"
proof (rule conjI)
  let ?E = "sim_env [] \<lparr>Files = [], Folders = []\<rparr> [] 0"
  let ?src = "\<lparr>info_Remote = ''a.txt'', info_Size = 10485761, info_ModTime = time_Unix 5 0\<rparr>"
  from sim_upload_two_chunks obtain s' rd' ob' where
    u: "Update ?E (sim_object ''a.txt'') (replicate 10485761 (CHR ''a'')) ?src sim_start
          = Some ((s', rd'), ob', None)"
    and ne: "\<forall>x\<in>set (sent_since sim_start s'). err_of (snd x) = None"
    by auto
  note t = Update_chunks [OF u]
  let ?acc = "accepted_chunks (sent_since sim_start s')"
  from t have l: "length ?acc = 2" by (simp add: chunkSize_def)
  from t l have o0: "form_values ''chunk_offset'' (Body (?acc ! 0)) = [FormatInt (int 0 * chunkSize)]"
    by (metis zero_less_numeral)
  from t l have o1: "form_values ''chunk_offset'' (Body (?acc ! 1)) = [FormatInt (int 1 * chunkSize)]"
    by (metis one_less_numeral_iff semiring_norm(76))
  from t have g: "(\<forall>x\<in>set (sent_since sim_start s'). err_of (snd x) = None) \<longrightarrow>
      chunk_sends (sent_since sim_start s') = ?acc" by (elim conjE)
  from o0 have p0: "form_values ''chunk_offset'' (Body (?acc ! 0)) = [''0'']"
    by (simp add: FormatInt_def)
  from o1 have p1: "form_values ''chunk_offset'' (Body (?acc ! 1)) = [''10485760'']"
    by (simp add: FormatInt_def chunkSize_def)
  from t have sm: "(\<Sum>rq\<leftarrow>?acc. int (length (file_data (Body rq)))) = 10485761" by simp
  from g ne have "chunk_sends (sent_since sim_start s') = ?acc" by (rule mp)
  with l have lc: "length (chunk_sends (sent_since sim_start s')) = 2" by simp
  from u l lc p0 p1 sm
  show "\<exists>s' rd' ob'.
      Update ?E (sim_object ''a.txt'') (replicate 10485761 (CHR ''a'')) ?src sim_start
        = Some ((s', rd'), ob', None)
      \<and> length (accepted_chunks (sent_since sim_start s')) = 2
      \<and> length (chunk_sends (sent_since sim_start s')) = 2
      \<and> form_values ''chunk_offset'' (Body (accepted_chunks (sent_since sim_start s') ! 0)) = [''0'']
      \<and> form_values ''chunk_offset'' (Body (accepted_chunks (sent_since sim_start s') ! 1))
           = [''10485760'']
      \<and> (\<Sum>rq\<leftarrow>accepted_chunks (sent_since sim_start s'). int (length (file_data (Body rq))))
           = 10485761"
    by blast
next
  let ?E = "sim_env [] \<lparr>Files = [], Folders = []\<rparr> [] 0"
  let ?src = "\<lparr>info_Remote = ''a.txt'', info_Size = 0, info_ModTime = time_Unix 5 0\<rparr>"
  from sim_upload_empty obtain s' rd' ob' where
    u: "Update ?E (sim_object ''a.txt'') [] ?src sim_start = Some ((s', rd'), ob', None)"
    by auto
  note t = Update_chunks [OF u]
  from t have a: "chunk_sends (sent_since sim_start s') = []" by simp
  from t have b: "requested ''/upload/open_file_upload.json'' (sent_since sim_start s')" by simp
  from t have c: "requested ''/upload/close_file_upload.json'' (sent_since sim_start s')" by simp
  from u a b c
  show "\<exists>s' rd' ob'.
      Update ?E (sim_object ''a.txt'') [] ?src sim_start = Some ((s', rd'), ob', None)
      \<and> chunk_sends (sent_since sim_start s') = []
      \<and> requested ''/upload/open_file_upload.json'' (sent_since sim_start s')
      \<and> requested ''/upload/close_file_upload.json'' (sent_since sim_start s')"
    by blast
qed

text \<open>
  C1 as stated fails, in three ways. With the declared size 3 and a stream of six bytes, a
  first chunk attempt that fails at the transport level is repeated: the upload completes
  without error after two chunk sends, both with the offset 0 and three bytes each, where
  \<open>\<lceil>3 / C\<rceil> = 1\<close>. With the declared size \<open>-1\<close> the upload completes without a chunk,
  so the byte lengths sum to 0. And when the open-upload call fails for good, no chunk is
  sent for the declared size 3 and the close-upload call is not made.
\<close>

theorem Update_chunk_sends_counterexample:
  "\<lceil>real_of_int 3 / real_of_int chunkSize\<rceil> = 1
   \<and> upload_sends (Update (sim_env_answering 1 (Failed (foreign_error ''connection reset'')))
        (sim_object ''a.txt'') ''abcdef''
        \<lparr>info_Remote = ''a.txt'', info_Size = 3, info_ModTime = time_Unix 5 0\<rparr> sim_start)
     = Some ([''/upload/open_file_upload.json'', ''/upload/upload_file_chunk.json'',
              ''/upload/upload_file_chunk.json'', ''/upload/close_file_upload.json'',
              ''/file/filesettings.json''],
             [([''0''], 3), ([''0''], 3)], None)
   \<and> upload_sends (Update (sim_env [] \<lparr>Files = [], Folders = []\<rparr> [] 0)
        (sim_object ''a.txt'') ''abc''
        \<lparr>info_Remote = ''a.txt'', info_Size = - 1, info_ModTime = time_Unix 5 0\<rparr> sim_start)
     = Some ([''/upload/open_file_upload.json'', ''/upload/close_file_upload.json'',
              ''/file/filesettings.json''], [], None)
   \<and> upload_sends (Update (sim_env_answering 0 (Failed (errors_New ''certificate has expired'')))
        (sim_object ''a.txt'') ''abc''
        \<lparr>info_Remote = ''a.txt'', info_Size = 3, info_ModTime = time_Unix 5 0\<rparr> sim_start)
     = Some ([''/upload/open_file_upload.json''], [],
             Some (errors_Wrap (errors_New ''certificate has expired'') ''failed to create file''))"
proof (intro conjI)
  show "\<lceil>real_of_int 3 / real_of_int chunkSize\<rceil> = 1"
    by (simp add: chunkSize_def)
  show "upload_sends (Update (sim_env_answering 1 (Failed (foreign_error ''connection reset'')))
        (sim_object ''a.txt'') ''abcdef''
        \<lparr>info_Remote = ''a.txt'', info_Size = 3, info_ModTime = time_Unix 5 0\<rparr> sim_start)
     = Some ([''/upload/open_file_upload.json'', ''/upload/upload_file_chunk.json'',
              ''/upload/upload_file_chunk.json'', ''/upload/close_file_upload.json'',
              ''/file/filesettings.json''],
             [([''0''], 3), ([''0''], 3)], None)"
    by code_simp
  show "upload_sends (Update (sim_env [] \<lparr>Files = [], Folders = []\<rparr> [] 0)
        (sim_object ''a.txt'') ''abc''
        \<lparr>info_Remote = ''a.txt'', info_Size = - 1, info_ModTime = time_Unix 5 0\<rparr> sim_start)
     = Some ([''/upload/open_file_upload.json'', ''/upload/close_file_upload.json'',
              ''/file/filesettings.json''], [], None)"
    by code_simp
  show "upload_sends (Update (sim_env_answering 0 (Failed (errors_New ''certificate has expired'')))
        (sim_object ''a.txt'') ''abc''
        \<lparr>info_Remote = ''a.txt'', info_Size = 3, info_ModTime = time_Unix 5 0\<rparr> sim_start)
     = Some ([''/upload/open_file_upload.json''], [],
             Some (errors_Wrap (errors_New ''certificate has expired'') ''failed to create file''))"
    by code_simp
qed

lemma result_ofD: "result_of res = Some r \<Longrightarrow> \<exists>s. res = Some (s, r)"
  by (cases res) (auto simp: result_of_def)

lemma readMetaData_md5:
  "readMetaData E ob0 s = Some (s', ob, None) \<Longrightarrow> md5 ob = []"
  by (auto simp: readMetaData_def split: option.splits sum.splits prod.splits list.splits if_splits)

lemma readMetaData_same_path:
  "readMetaData E ob s = Some (s', ob', r) \<Longrightarrow> fs ob' = fs ob \<and> remote ob' = remote ob"
  by (auto simp: readMetaData_def split: option.splits sum.splits prod.splits list.splits if_splits)

lemma newObjectWithInfo_md5:
  "newObjectWithInfo E f rmt fl s = Some (s', Inr ob) \<Longrightarrow> md5 ob = []"
  by (cases fl)
     (auto simp: newObjectWithInfo_def split: option.splits prod.splits dest: readMetaData_md5)

lemma createObject_md5:
  "createObject E f rmt mt sz s = Some (s', Inr (ob, leaf, dirID)) \<Longrightarrow> md5 ob = []"
  by (auto simp: createObject_def split: option.splits sum.splits prod.splits)

lemma Copy_md5:
  "Copy E f src rmt s = Some (s', Inr ob) \<Longrightarrow> md5 ob = []"
  by (cases src)
     (auto simp: Copy_def Let_def split: option.splits sum.splits prod.splits if_splits
           dest: createObject_md5)

lemma Update_md5:
  "Update E ob0 rd info s = Some (st, ob, err) \<Longrightarrow> md5 ob = md5 ob0"
  by (auto simp: Update_def Let_def split: option.splits prod.splits)

text \<open>
  C9. An object built from a listing record by \<^verbatim>\<open>newObjectWithInfo\<close>, or filled by
  a metadata lookup of \<^verbatim>\<open>readMetaData\<close>, has the empty string as its MD5, so
  \<^verbatim>\<open>Hash\<close> for MD5 returns the empty string and no error. No other operation
  populates the hash either: the object returned by \<^verbatim>\<open>Copy\<close> has an empty MD5 and
  \<^verbatim>\<open>Update\<close> leaves the MD5 of its object as it was.
\<close>

theorem md5_never_populated:
  fixes E :: "'w env"
  shows "(newObjectWithInfo E f rmt fl s = Some (s', Inr ob) \<longrightarrow>
            md5 ob = [] \<and> Hash E ob (fs_HashMD5 E) = ([], None))
       \<and> (readMetaData E ob0 s = Some (s', ob, None) \<longrightarrow>
            md5 ob = [] \<and> Hash E ob (fs_HashMD5 E) = ([], None))
       \<and> (Copy E f src rmt s = Some (s', Inr ob) \<longrightarrow> md5 ob = [])
       \<and> (Update E ob0 rd info s = Some (st, ob, err) \<longrightarrow> md5 ob = md5 ob0)"
  by (simp add: Hash_def newObjectWithInfo_md5 readMetaData_md5 Copy_md5 Update_md5)

lemma sim_upload_small:
  "\<exists>s' rd' ob'. Update (sim_env [] \<lparr>Files = [], Folders = []\<rparr> [] 0) (sim_object ''a.txt'') ''abc''
     \<lparr>info_Remote = ''a.txt'', info_Size = 3, info_ModTime = time_Unix 5 0\<rparr> sim_start
   = Some ((s', rd'), ob', None)"
  by (simp add: sim_upload_simps)

lemma sim_upload_small_sends:
  "map_option (\<lambda>((s', rd'), ob', err). length (chunk_sends (sent_since sim_start s')))
     (Update (sim_env [] \<lparr>Files = [], Folders = []\<rparr> [] 0) (sim_object ''a.txt'') ''abc''
        \<lparr>info_Remote = ''a.txt'', info_Size = 3, info_ModTime = time_Unix 5 0\<rparr> sim_start)
   = Some 1"
  by code_simp

theorem chunk_session_id_twice_witness:
  "\<exists>s' rd' ob'.
      Update (sim_env [] \<lparr>Files = [], Folders = []\<rparr> [] 0) (sim_object ''a.txt'') ''abc''
        \<lparr>info_Remote = ''a.txt'', info_Size = 3, info_ModTime = time_Unix 5 0\<rparr> sim_start
        = Some ((s', rd'), ob', None)
      \<and> length (chunk_sends (sent_since sim_start s')) = 1
      \<and> form_values ''session_id'' (Body (hd (chunk_sends (sent_since sim_start s'))))
           = [''sid'', ''sid'']"
proof -
  let ?E = "sim_env [] \<lparr>Files = [], Folders = []\<rparr> [] 0"
  let ?src = "\<lparr>info_Remote = ''a.txt'', info_Size = 3, info_ModTime = time_Unix 5 0\<rparr>"
  from sim_upload_small obtain s' rd' ob' where
    u: "Update ?E (sim_object ''a.txt'') ''abc'' ?src sim_start = Some ((s', rd'), ob', None)"
    by auto
  with sim_upload_small_sends have l: "length (chunk_sends (sent_since sim_start s')) = 1"
    by simp
  then have "hd (chunk_sends (sent_since sim_start s')) \<in> set (chunk_sends (sent_since sim_start s'))"
    by (cases "chunk_sends (sent_since sim_start s')") auto
  with chunk_session_id_twice [where E = ?E and ob = "sim_object ''a.txt''" and rd = "''abc''"
      and src = ?src and s = sim_start, THEN conjunct2, rule_format, OF u]
  have "form_values ''session_id'' (Body (hd (chunk_sends (sent_since sim_start s'))))
          = [SessionID (session (fs (sim_object ''a.txt''))), SessionID (session (fs (sim_object ''a.txt'')))]"
    by blast
  then have "form_values ''session_id'' (Body (hd (chunk_sends (sent_since sim_start s'))))
           = [''sid'', ''sid'']"
    by (simp add: sim_object_def sim_fs_def)
  with u l show ?thesis by blast
qed

lemma sim_newObject_listed:
  "newObjectWithInfo (sim_env [([], ''0'')] \<lparr>Files = [sim_file], Folders = []\<rparr> ''3'' 0)
      sim_fs ''file.txt'' (Some sim_file) sim_start
   = Some (sim_start, Inr \<lparr>fs = sim_fs, remote = ''file.txt'', obj_id = ''7'',
        modTime = time_Unix 1500000000 0, md5 = [], obj_size = 3\<rparr>)"
  by (simp add: newObjectWithInfo_def sim_file_def)

lemma sim_readMetaData:
  "result_of (readMetaData (sim_env [([], ''0'')] \<lparr>Files = [sim_file], Folders = []\<rparr> ''3'' 0)
      ((sim_object ''file.txt'')\<lparr>md5 := ''0cc175b9''\<rparr>) sim_start)
   = Some (\<lparr>fs = sim_fs, remote = ''file.txt'', obj_id = ''7'',
        modTime = time_Unix 1500000000 0, md5 = [], obj_size = 3\<rparr>, None)"
  by code_simp

lemma sim_Copy:
  "result_of (Copy (sim_env [([], ''0''), (''x'', ''1'')] \<lparr>Files = [sim_file], Folders = []\<rparr> ''3'' 0)
      sim_fs (This (sim_object ''x/file.txt'')) ''x/copy.txt'' sim_start)
   = Some (Inr \<lparr>fs = sim_fs, remote = ''x/copy.txt'', obj_id = ''43'',
        modTime = zero_Time, md5 = [], obj_size = 3\<rparr>)"
  by code_simp

theorem md5_never_populated_witness:
  "(\<exists>s' ob. newObjectWithInfo (sim_env [([], ''0'')] \<lparr>Files = [sim_file], Folders = []\<rparr> ''3'' 0)
        sim_fs ''file.txt'' (Some sim_file) sim_start = Some (s', Inr ob)
      \<and> md5 ob = [] \<and> Hash (sim_env [([], ''0'')] \<lparr>Files = [sim_file], Folders = []\<rparr> ''3'' 0) ob 1 = ([], None))
   \<and> (\<exists>s' ob. readMetaData (sim_env [([], ''0'')] \<lparr>Files = [sim_file], Folders = []\<rparr> ''3'' 0)
        ((sim_object ''file.txt'')\<lparr>md5 := ''0cc175b9''\<rparr>) sim_start = Some (s', ob, None)
      \<and> md5 ob = [] \<and> Hash (sim_env [([], ''0'')] \<lparr>Files = [sim_file], Folders = []\<rparr> ''3'' 0) ob 1 = ([], None))
   \<and> (\<exists>s' ob. Copy (sim_env [([], ''0''), (''x'', ''1'')] \<lparr>Files = [sim_file], Folders = []\<rparr> ''3'' 0)
        sim_fs (This (sim_object ''x/file.txt'')) ''x/copy.txt'' sim_start = Some (s', Inr ob)
      \<and> md5 ob = [])
   \<and> (\<exists>st ob. Update (sim_env [] \<lparr>Files = [], Folders = []\<rparr> [] 0) (sim_object ''a.txt'') ''abc''
        \<lparr>info_Remote = ''a.txt'', info_Size = 3, info_ModTime = time_Unix 5 0\<rparr> sim_start
        = Some (st, ob, None)
      \<and> md5 ob = md5 (sim_object ''a.txt''))"
proof (intro conjI)
  let ?E = "sim_env [([], ''0'')] \<lparr>Files = [sim_file], Folders = []\<rparr> ''3'' 0"
  let ?ob = "\<lparr>fs = sim_fs, remote = ''file.txt'', obj_id = ''7'',
        modTime = time_Unix 1500000000 0, md5 = [], obj_size = 3\<rparr>"
  have h: "fs_HashMD5 ?E = 1" by (simp add: sim_env_def)
  note n = sim_newObject_listed
  from md5_never_populated [of ?E sim_fs "''file.txt''" "Some sim_file" sim_start sim_start ?ob,
      THEN conjunct1, THEN mp, OF n] h
  have "md5 ?ob = [] \<and> Hash ?E ?ob 1 = ([], None)" by simp
  with n show "\<exists>s' ob. newObjectWithInfo ?E sim_fs ''file.txt'' (Some sim_file) sim_start = Some (s', Inr ob)
      \<and> md5 ob = [] \<and> Hash ?E ob 1 = ([], None)" by blast
  from result_ofD [OF sim_readMetaData] obtain s1 where
    r: "readMetaData ?E ((sim_object ''file.txt'')\<lparr>md5 := ''0cc175b9''\<rparr>) sim_start = Some (s1, ?ob, None)"
    by blast
  from md5_never_populated [of ?E _ _ _ sim_start s1 ?ob "(sim_object ''file.txt'')\<lparr>md5 := ''0cc175b9''\<rparr>",
      THEN conjunct2, THEN conjunct1, THEN mp, OF r] h
  have "md5 ?ob = [] \<and> Hash ?E ?ob 1 = ([], None)" by simp
  with r show "\<exists>s' ob. readMetaData ?E ((sim_object ''file.txt'')\<lparr>md5 := ''0cc175b9''\<rparr>) sim_start
        = Some (s', ob, None) \<and> md5 ob = [] \<and> Hash ?E ob 1 = ([], None)" by blast
next
  let ?E = "sim_env [([], ''0''), (''x'', ''1'')] \<lparr>Files = [sim_file], Folders = []\<rparr> ''3'' 0"
  from result_ofD [OF sim_Copy] obtain s1 ob where
    c: "Copy ?E sim_fs (This (sim_object ''x/file.txt'')) ''x/copy.txt'' sim_start = Some (s1, Inr ob)"
    by blast
  from md5_never_populated [of ?E sim_fs "''x/copy.txt''" _ sim_start s1 ob _ "This (sim_object ''x/file.txt'')",
      THEN conjunct2, THEN conjunct2, THEN conjunct1, THEN mp, OF c]
  have "md5 ob = []" .
  with c show "\<exists>s' ob. Copy ?E sim_fs (This (sim_object ''x/file.txt'')) ''x/copy.txt'' sim_start
      = Some (s', Inr ob) \<and> md5 ob = []" by blast
next
  let ?E = "sim_env [] \<lparr>Files = [], Folders = []\<rparr> [] 0"
  let ?src = "\<lparr>info_Remote = ''a.txt'', info_Size = 3, info_ModTime = time_Unix 5 0\<rparr>"
  from sim_upload_small obtain st ob where
    u: "Update ?E (sim_object ''a.txt'') ''abc'' ?src sim_start = Some (st, ob, None)"
    by auto
  from md5_never_populated [where E = ?E and ?ob0.0 = "sim_object ''a.txt''" and rd = "''abc''"
      and info = ?src and s = sim_start and st = st and ob = ob and err = None,
      THEN conjunct2, THEN conjunct2, THEN conjunct2, THEN mp, OF u]
  have "md5 ob = md5 (sim_object ''a.txt'')" .
  with u show "\<exists>st ob. Update ?E (sim_object ''a.txt'') ''abc'' ?src sim_start = Some (st, ob, None)
      \<and> md5 ob = md5 (sim_object ''a.txt'')" by blast
qed

subsection \<open>Removing a directory that is not empty\<close>

text \<open>When the listing of the directory shows a file, \<^verbatim>\<open>Rmdir\<close> refuses: it returns
  the error in the state the listing left, so no delete call is made.\<close>

lemma Rmdir_refuses_files:
  fixes E :: "'w env"
  assumes "path_Join E (fs_root f) dir \<noteq> []"
    and "dirCache_FindRoot E f False s = Some (s1, None)"
    and "dirCache_FindDir E f dir False s1 = Some (s2, Inr rootID)"
    and "readMetaDataForFolderID E f rootID s2 = Some (s3, Some item, None)"
    and "Files item \<noteq> []"
  shows "Rmdir E f dir s = Some (s3, Some (errors_New ''folder not empty''))"
  using assms by (simp add: Rmdir_def purgeCheck_def)

text \<open>
  C3. \<^verbatim>\<open>Rmdir\<close> on a directory that holds one subfolder and no file: the comments of
  \<^verbatim>\<open>purgeCheck\<close> and \<^verbatim>\<open>Rmdir\<close> promise a refusal when the directory has anything
  in it, but the test reads only the files of the listing. The listing is requested, then the
  delete call is made, and \<^verbatim>\<open>Rmdir\<close> returns no error.
\<close>

theorem Rmdir_deletes_folder_with_subfolder:
  "paths_called (Rmdir (sim_env [([], ''0''), (''nonempty'', ''1'')]
       \<lparr>Files = [], Folders = [sim_folder]\<rparr> [] 0) sim_fs ''nonempty'' sim_start)
     = Some [''/folder/list.json/sid/1'', ''/folder/remove.json'']
   \<and> result_of (Rmdir (sim_env [([], ''0''), (''nonempty'', ''1'')]
       \<lparr>Files = [], Folders = [sim_folder]\<rparr> [] 0) sim_fs ''nonempty'' sim_start)
     = Some None"
proof (rule conjI)
  show "paths_called (Rmdir (sim_env [([], ''0''), (''nonempty'', ''1'')]
       \<lparr>Files = [], Folders = [sim_folder]\<rparr> [] 0) sim_fs ''nonempty'' sim_start)
     = Some [''/folder/list.json/sid/1'', ''/folder/remove.json'']"
    by code_simp
  show "result_of (Rmdir (sim_env [([], ''0''), (''nonempty'', ''1'')]
       \<lparr>Files = [], Folders = [sim_folder]\<rparr> [] 0) sim_fs ''nonempty'' sim_start)
     = Some None"
    by code_simp
qed

subsection \<open>Copy onto the same name\<close>

text \<open>
  C5, as amended. For every \<^verbatim>\<open>Copy\<close> whose destination path is case-insensitively
  identical to the source path (each prefixed with its root), \<^verbatim>\<open>Copy\<close> first reads
  the metadata of the source object, which may call the service. When that lookup fails,
  \<^verbatim>\<open>Copy\<close> fails with the error of the lookup; when it succeeds, \<^verbatim>\<open>Copy\<close> fails
  with the same-name error. In both cases it returns in the state the lookup left: no call
  is made beyond those of the lookup.
\<close>

theorem Copy_same_name_after_lookup:
  fixes E :: "'w env"
  assumes "strings_ToLower E (rootSlash (fs srcObj) @ remote srcObj)
             = strings_ToLower E (rootSlash f @ rmt)"
    and "readMetaData E srcObj s = Some (s1, ob1, r)"
  shows "Copy E f (This srcObj) rmt s =
           Some (s1, Inl (case r of
                            Some err \<Rightarrow> err
                          | None \<Rightarrow> errors_Errorf
                              (''Can'' @ [CHR 0x27] @ ''t copy %q -> %q as are same name when lowercase'')
                              [rootSlash (fs srcObj) @ remote srcObj, rootSlash f @ rmt]))"
proof -
  from readMetaData_same_path [OF assms(2)] have "fs ob1 = fs srcObj" "remote ob1 = remote srcObj"
    by simp_all
  with assms show ?thesis by (cases r) (simp_all add: Copy_def Let_def)
qed

lemma sim_Copy_same_name_lookup:
  "result_of (readMetaData (sim_env [([], ''0''), (''x'', ''1'')] \<lparr>Files = [sim_file], Folders = []\<rparr> ''3'' 0)
      (sim_object ''x/file.txt'') sim_start)
   = Some (\<lparr>fs = sim_fs, remote = ''x/file.txt'', obj_id = ''7'',
        modTime = time_Unix 1500000000 0, md5 = [], obj_size = 3\<rparr>, None)"
  by code_simp

lemma sim_lower_same:
  "strings_ToLower (sim_env [([], ''0''), (''x'', ''1'')] \<lparr>Files = [sim_file], Folders = []\<rparr> ''3'' 0)
      (rootSlash (fs (sim_object ''x/file.txt'')) @ remote (sim_object ''x/file.txt''))
   = strings_ToLower (sim_env [([], ''0''), (''x'', ''1'')] \<lparr>Files = [sim_file], Folders = []\<rparr> ''3'' 0)
      (rootSlash sim_fs @ ''X/FILE.TXT'')"
  by code_simp

theorem Copy_same_name_after_lookup_witness:
  "strings_ToLower (sim_env [([], ''0''), (''x'', ''1'')] \<lparr>Files = [sim_file], Folders = []\<rparr> ''3'' 0)
      (rootSlash (fs (sim_object ''x/file.txt'')) @ remote (sim_object ''x/file.txt''))
     = strings_ToLower (sim_env [([], ''0''), (''x'', ''1'')] \<lparr>Files = [sim_file], Folders = []\<rparr> ''3'' 0)
      (rootSlash sim_fs @ ''X/FILE.TXT'')
   \<and> (\<exists>s1 ob1.
        readMetaData (sim_env [([], ''0''), (''x'', ''1'')] \<lparr>Files = [sim_file], Folders = []\<rparr> ''3'' 0)
          (sim_object ''x/file.txt'') sim_start = Some (s1, ob1, None)
      \<and> Copy (sim_env [([], ''0''), (''x'', ''1'')] \<lparr>Files = [sim_file], Folders = []\<rparr> ''3'' 0)
          sim_fs (This (sim_object ''x/file.txt'')) ''X/FILE.TXT'' sim_start
        = Some (s1, Inl (errors_Errorf
             (''Can'' @ [CHR 0x27] @ ''t copy %q -> %q as are same name when lowercase'')
             [''x/file.txt'', ''X/FILE.TXT''])))"
proof -
  let ?E = "sim_env [([], ''0''), (''x'', ''1'')] \<lparr>Files = [sim_file], Folders = []\<rparr> ''3'' 0"
  from result_ofD [OF sim_Copy_same_name_lookup] obtain s1 ob1 where
    r: "readMetaData ?E (sim_object ''x/file.txt'') sim_start = Some (s1, ob1, None)"
    by blast
  from Copy_same_name_after_lookup [OF sim_lower_same r]
  have "Copy ?E sim_fs (This (sim_object ''x/file.txt'')) ''X/FILE.TXT'' sim_start
        = Some (s1, Inl (errors_Errorf
             (''Can'' @ [CHR 0x27] @ ''t copy %q -> %q as are same name when lowercase'')
             [''x/file.txt'', ''X/FILE.TXT'']))"
    by (simp add: sim_object_def sim_fs_def rootSlash_def)
  with r sim_lower_same show ?thesis by blast
qed

text \<open>
  C5 as stated fails: copying \<^verbatim>\<open>x/file.txt\<close> onto \<^verbatim>\<open>X/FILE.TXT\<close> returns the
  same-name error, but only after the item-by-name request of the metadata lookup has been
  sent to the service.
\<close>

theorem Copy_same_name_calls_service:
  "sim_ToLower (rootSlash sim_fs @ ''x/file.txt'') = sim_ToLower (rootSlash sim_fs @ ''X/FILE.TXT'')
   \<and> result_of (Copy (sim_env [([], ''0''), (''x'', ''1'')] \<lparr>Files = [sim_file], Folders = []\<rparr> ''3'' 0)
          sim_fs (This (sim_object ''x/file.txt'')) ''X/FILE.TXT'' sim_start)
     = Some (Inl (errors_Errorf
             (''Can'' @ [CHR 0x27] @ ''t copy %q -> %q as are same name when lowercase'')
             [''x/file.txt'', ''X/FILE.TXT'']))
   \<and> paths_called (Copy (sim_env [([], ''0''), (''x'', ''1'')] \<lparr>Files = [sim_file], Folders = []\<rparr> ''3'' 0)
          sim_fs (This (sim_object ''x/file.txt'')) ''X/FILE.TXT'' sim_start)
     = Some [''/folder/itembyname.json/sid/1?name=file.txt'']"
proof (intro conjI)
  show "sim_ToLower (rootSlash sim_fs @ ''x/file.txt'') = sim_ToLower (rootSlash sim_fs @ ''X/FILE.TXT'')"
    by code_simp
  show "result_of (Copy (sim_env [([], ''0''), (''x'', ''1'')] \<lparr>Files = [sim_file], Folders = []\<rparr> ''3'' 0)
          sim_fs (This (sim_object ''x/file.txt'')) ''X/FILE.TXT'' sim_start)
     = Some (Inl (errors_Errorf
             (''Can'' @ [CHR 0x27] @ ''t copy %q -> %q as are same name when lowercase'')
             [''x/file.txt'', ''X/FILE.TXT'']))"
    by code_simp
  show "paths_called (Copy (sim_env [([], ''0''), (''x'', ''1'')] \<lparr>Files = [sim_file], Folders = []\<rparr> ''3'' 0)
          sim_fs (This (sim_object ''x/file.txt'')) ''X/FILE.TXT'' sim_start)
     = Some [''/folder/itembyname.json/sid/1?name=file.txt'']"
    by code_simp
qed

subsection \<open>The size in the reply to a copy\<close>

lemma ParseInt_syntax_zero:
  "snd (ParseInt str) = Some ErrSyntax \<Longrightarrow> fst (ParseInt str) = 0"
  by (auto simp: ParseInt_def Let_def split: prod.splits option.splits NumError.splits if_splits)

lemma ParseInt_range_bound:
  "snd (ParseInt str) = Some ErrRange \<Longrightarrow>
     fst (ParseInt str) = (if hd str = CHR ''-'' then - (2 ^ 63) else 2 ^ 63 - 1)"
  by (auto simp: ParseInt_def Let_def split: prod.splits option.splits NumError.splits if_splits)

text \<open>
  C10, as amended. When \<^verbatim>\<open>Copy\<close> has read the metadata of the source, found the two
  paths different, prepared the destination and received the reply to the copy request
  without error, and \<^verbatim>\<open>ParseInt\<close> fails on the \<^verbatim>\<open>Size\<close> field of the reply, then
  \<^verbatim>\<open>Copy\<close> drops the failure and returns the destination object with a nil error. The
  size of the object is 0 when \<^verbatim>\<open>ParseInt\<close> reports a syntax error; when it reports a
  range error, the size is \<open>- 2^63\<close> if the field starts with a minus sign and
  \<open>2^63 - 1\<close> otherwise.
\<close>

theorem Copy_ignores_ParseInt_error:
  fixes E :: "'w env"
  assumes "readMetaData E srcObj0 s = Some (s1, srcObj, None)"
    and "strings_ToLower E (rootSlash (fs srcObj) @ remote srcObj)
           \<noteq> strings_ToLower E (rootSlash f @ rmt)"
    and "createObject E f rmt (modTime srcObj) (obj_size srcObj) s1
           = Some (s2, Inr (dstObj, leaf, directoryID))"
    and "pacer_Call (copy_attempt E f srcObj directoryID)
           (s2, \<lparr>copyFileResponse.FileID = [], copyFileResponse.Size = []\<rparr>)
           = Some ((s3, response), None)"
    and "snd (ParseInt (copyFileResponse.Size response)) = Some e"
  shows "Copy E f (This srcObj0) rmt s =
           Some (s3, Inr (dstObj\<lparr>obj_id := copyFileResponse.FileID response,
                   obj_size := (case e of
                       ErrSyntax \<Rightarrow> 0
                     | ErrRange \<Rightarrow>
                         if hd (copyFileResponse.Size response) = CHR ''-'' then - (2 ^ 63)
                         else 2 ^ 63 - 1)\<rparr>))"
proof -
  have "fst (ParseInt (copyFileResponse.Size response)) =
          (case e of
             ErrSyntax \<Rightarrow> 0
           | ErrRange \<Rightarrow>
               if hd (copyFileResponse.Size response) = CHR ''-'' then - (2 ^ 63) else 2 ^ 63 - 1)"
    using assms(5) ParseInt_syntax_zero [of "copyFileResponse.Size response"]
      ParseInt_range_bound [of "copyFileResponse.Size response"]
    by (cases e) simp_all
  with assms(1-4) show ?thesis by (simp add: Copy_def Let_def)
qed

lemma sim_ToLower_paths:
  "sim_ToLower ''x/file.txt'' = ''x/file.txt''" "sim_ToLower ''x/copy.txt'' = ''x/copy.txt''"
  by code_simp+

lemma sim_ParseInt_abc: "ParseInt ''abc'' = (0, Some ErrSyntax)"
  by code_simp

lemma sim_Copy_steps:
  "\<exists>s1 srcObj s2 dstObj leaf directoryID s3 response.
      readMetaData (sim_env [([], ''0''), (''x'', ''1'')] \<lparr>Files = [sim_file], Folders = []\<rparr> ''abc'' 0)
        (sim_object ''x/file.txt'') sim_start = Some (s1, srcObj, None)
    \<and> strings_ToLower (sim_env [([], ''0''), (''x'', ''1'')] \<lparr>Files = [sim_file], Folders = []\<rparr> ''abc'' 0)
          (rootSlash (fs srcObj) @ remote srcObj)
        \<noteq> strings_ToLower (sim_env [([], ''0''), (''x'', ''1'')] \<lparr>Files = [sim_file], Folders = []\<rparr> ''abc'' 0)
          (rootSlash sim_fs @ ''x/copy.txt'')
    \<and> createObject (sim_env [([], ''0''), (''x'', ''1'')] \<lparr>Files = [sim_file], Folders = []\<rparr> ''abc'' 0)
        sim_fs ''x/copy.txt'' (modTime srcObj) (obj_size srcObj) s1
        = Some (s2, Inr (dstObj, leaf, directoryID))
    \<and> pacer_Call (copy_attempt (sim_env [([], ''0''), (''x'', ''1'')] \<lparr>Files = [sim_file], Folders = []\<rparr> ''abc'' 0)
          sim_fs srcObj directoryID)
        (s2, \<lparr>copyFileResponse.FileID = [], copyFileResponse.Size = []\<rparr>)
        = Some ((s3, response), None)
    \<and> response = \<lparr>copyFileResponse.FileID = ''43'', copyFileResponse.Size = ''abc''\<rparr>
    \<and> dstObj = \<lparr>fs = sim_fs, remote = ''x/copy.txt'', obj_id = [], modTime = zero_Time,
                  md5 = [], obj_size = 0\<rparr>"
  by (simp add: readMetaData_def createObject_def pacer_Call.simps itembyname_attempt_def
      copy_attempt_def srv_Call_def shouldRetry_def fs_ShouldRetryHTTP_def retryErrorCodes_def
      sim_env_def sim_srv_def sim_start_def sim_object_def sim_fs_def sim_file_def
      sim_SplitPath_def into_FolderList_def into_copyFileResponse_def pathEscape_def
      rootSlash_def sim_ToLower_paths)

theorem Copy_ignores_ParseInt_error_witness:
  "\<exists>s1 srcObj s2 dstObj leaf directoryID s3 response.
      readMetaData (sim_env [([], ''0''), (''x'', ''1'')] \<lparr>Files = [sim_file], Folders = []\<rparr> ''abc'' 0)
        (sim_object ''x/file.txt'') sim_start = Some (s1, srcObj, None)
    \<and> strings_ToLower (sim_env [([], ''0''), (''x'', ''1'')] \<lparr>Files = [sim_file], Folders = []\<rparr> ''abc'' 0)
          (rootSlash (fs srcObj) @ remote srcObj)
        \<noteq> strings_ToLower (sim_env [([], ''0''), (''x'', ''1'')] \<lparr>Files = [sim_file], Folders = []\<rparr> ''abc'' 0)
          (rootSlash sim_fs @ ''x/copy.txt'')
    \<and> createObject (sim_env [([], ''0''), (''x'', ''1'')] \<lparr>Files = [sim_file], Folders = []\<rparr> ''abc'' 0)
        sim_fs ''x/copy.txt'' (modTime srcObj) (obj_size srcObj) s1
        = Some (s2, Inr (dstObj, leaf, directoryID))
    \<and> pacer_Call (copy_attempt (sim_env [([], ''0''), (''x'', ''1'')] \<lparr>Files = [sim_file], Folders = []\<rparr> ''abc'' 0)
          sim_fs srcObj directoryID)
        (s2, \<lparr>copyFileResponse.FileID = [], copyFileResponse.Size = []\<rparr>)
        = Some ((s3, response), None)
    \<and> copyFileResponse.Size response = ''abc''
    \<and> snd (ParseInt (copyFileResponse.Size response)) = Some ErrSyntax
    \<and> Copy (sim_env [([], ''0''), (''x'', ''1'')] \<lparr>Files = [sim_file], Folders = []\<rparr> ''abc'' 0)
        sim_fs (This (sim_object ''x/file.txt'')) ''x/copy.txt'' sim_start
      = Some (s3, Inr \<lparr>fs = sim_fs, remote = ''x/copy.txt'', obj_id = ''43'', modTime = zero_Time,
                  md5 = [], obj_size = 0\<rparr>)"
proof -
  let ?E = "sim_env [([], ''0''), (''x'', ''1'')] \<lparr>Files = [sim_file], Folders = []\<rparr> ''abc'' 0"
  from sim_Copy_steps obtain s1 srcObj s2 dstObj leaf directoryID s3 response where
    a: "readMetaData ?E (sim_object ''x/file.txt'') sim_start = Some (s1, srcObj, None)"
    and b: "strings_ToLower ?E (rootSlash (fs srcObj) @ remote srcObj)
        \<noteq> strings_ToLower ?E (rootSlash sim_fs @ ''x/copy.txt'')"
    and c: "createObject ?E sim_fs ''x/copy.txt'' (modTime srcObj) (obj_size srcObj) s1
        = Some (s2, Inr (dstObj, leaf, directoryID))"
    and d: "pacer_Call (copy_attempt ?E sim_fs srcObj directoryID)
        (s2, \<lparr>copyFileResponse.FileID = [], copyFileResponse.Size = []\<rparr>)
        = Some ((s3, response), None)"
    and r: "response = \<lparr>copyFileResponse.FileID = ''43'', copyFileResponse.Size = ''abc''\<rparr>"
    and o: "dstObj = \<lparr>fs = sim_fs, remote = ''x/copy.txt'', obj_id = [], modTime = zero_Time,
                  md5 = [], obj_size = 0\<rparr>"
    by blast
  have z: "copyFileResponse.Size response = ''abc''" by (simp add: r)
  have e: "snd (ParseInt (copyFileResponse.Size response)) = Some ErrSyntax"
    by (simp add: r sim_ParseInt_abc)
  from Copy_ignores_ParseInt_error [OF a b c d e]
  have "Copy ?E sim_fs (This (sim_object ''x/file.txt'')) ''x/copy.txt'' sim_start
      = Some (s3, Inr \<lparr>fs = sim_fs, remote = ''x/copy.txt'', obj_id = ''43'', modTime = zero_Time,
                  md5 = [], obj_size = 0\<rparr>)"
    by (simp add: r o)
  with a b c d z e show ?thesis by blast
qed

text \<open>
  C10 as stated fails: the size field \<^verbatim>\<open>9223372036854775808\<close> does not parse as an
  \<^verbatim>\<open>int64\<close>, and the object returned has the size 9223372036854775807, not 0.
\<close>

theorem Copy_clamps_out_of_range_Size:
  "ParseInt ''9223372036854775808'' = (9223372036854775807, Some ErrRange)
   \<and> last_document (Copy (sim_env [([], ''0''), (''x'', ''1'')]
          \<lparr>Files = [sim_file], Folders = []\<rparr> ''9223372036854775808'' 0)
        sim_fs (This (sim_object ''x/file.txt'')) ''x/copy.txt'' sim_start)
     = Some (copyFilePayload
          \<lparr>copyFileResponse.FileID = ''43'', copyFileResponse.Size = ''9223372036854775808''\<rparr>)
   \<and> result_of (Copy (sim_env [([], ''0''), (''x'', ''1'')]
          \<lparr>Files = [sim_file], Folders = []\<rparr> ''9223372036854775808'' 0)
        sim_fs (This (sim_object ''x/file.txt'')) ''x/copy.txt'' sim_start)
     = Some (Inr \<lparr>fs = sim_fs, remote = ''x/copy.txt'', obj_id = ''43'', modTime = zero_Time,
                  md5 = [], obj_size = 9223372036854775807\<rparr>)"
proof (intro conjI)
  show "ParseInt ''9223372036854775808'' = (9223372036854775807, Some ErrRange)"
    by code_simp
  show "last_document (Copy (sim_env [([], ''0''), (''x'', ''1'')]
          \<lparr>Files = [sim_file], Folders = []\<rparr> ''9223372036854775808'' 0)
        sim_fs (This (sim_object ''x/file.txt'')) ''x/copy.txt'' sim_start)
     = Some (copyFilePayload
          \<lparr>copyFileResponse.FileID = ''43'', copyFileResponse.Size = ''9223372036854775808''\<rparr>)"
    by code_simp
  show "result_of (Copy (sim_env [([], ''0''), (''x'', ''1'')]
          \<lparr>Files = [sim_file], Folders = []\<rparr> ''9223372036854775808'' 0)
        sim_fs (This (sim_object ''x/file.txt'')) ''x/copy.txt'' sim_start)
     = Some (Inr \<lparr>fs = sim_fs, remote = ''x/copy.txt'', obj_id = ''43'', modTime = zero_Time,
                  md5 = [], obj_size = 9223372036854775807\<rparr>)"
    by code_simp
qed

subsection \<open>A stream that does not match the declared size\<close>

text \<open>The paced chunk call returns: an attempt that is repeated has taken its bytes from the
  reader, which is finite.\<close>

lemma chunk_call_returns:
  fixes E :: "'w env"
  assumes n: "0 < n"
  shows "\<exists>y. pacer_Call (chunk_attempt E ob opn off n) st = Some y"
proof (rule pacer_Call_returns [where m = "\<lambda>c. length (snd c)"])
  fix a b :: "'w state \<times> string" and r x
  assume f: "chunk_attempt E ob opn off n a = (b, r, x)" and "r" and "x \<noteq> None"
  from f have "chunk_attempt E ob opn off n (fst a, snd a) = ((fst b, snd b), r, x)" by simp
  from chunk_attempt_cases [OF this n] \<open>r\<close>
  have "int (length (snd b)) + n = int (length (snd a))" by blast
  with n show "length (snd b) < length (snd a)" by simp
qed

text \<open>With fewer bytes in the reader than remain to be sent, the loop returns an error.\<close>

lemma Update_loop_short_reader:
  fixes E :: "'w env"
  assumes "int (length (snd st)) < R"
  shows "\<exists>st' e. Update_loop E ob opn off R cnt st = Some (st', Some e)"
  using assms
proof (induction "nat R" arbitrary: off R cnt st rule: less_induct)
  case less
  from less.prems have pos: "0 < R" by simp
  define n where "n = (if chunkSize > R then R else chunkSize)"
  note ar = chunk_count_step [OF pos n_def]
  from chunk_call_returns [OF ar(2)] obtain st1 e1 where
    p: "pacer_Call (chunk_attempt E ob opn off n) st = Some (st1, e1)"
    by (metis surj_pair)
  have unf: "Update_loop E ob opn off R cnt st =
      (case pacer_Call (chunk_attempt E ob opn off n) st of
             None \<Rightarrow> None
           | Some (st1, Some err) \<Rightarrow> Some (st1, Some (errors_Wrap err ''failed to create file''))
           | Some (st1, None) \<Rightarrow>
               Update_loop E ob opn (off + n) (R - n) (cnt + 1) st1)"
    unfolding n_def using pos by (subst Update_loop.simps) (simp add: Let_def)
  show ?case
  proof (cases e1)
    case (Some err)
    with unf p show ?thesis by simp
  next
    case None
    from chunk_call_trace [OF p ar(2)] None
    have "int (length (snd st1)) + n \<le> int (length (snd st))" by blast
    with less.prems have short: "int (length (snd st1)) < R - n" by simp
    have "nat (R - n) < nat R" using ar(2,3) pos by simp
    from less.hyps [OF this short] obtain st' e where
      "Update_loop E ob opn (off + n) (R - n) (cnt + 1) st1 = Some (st', Some e)" by blast
    with unf p None show ?thesis by simp
  qed
qed

text \<open>
  C4, as amended. For every upload by \<^verbatim>\<open>Update\<close> whose source stream yields fewer
  bytes than the declared size, the upload never completes without error, and once the paced
  open-upload call has returned, \<^verbatim>\<open>Update\<close> returns with an error.
\<close>

theorem Update_short_stream_fails:
  fixes E :: "'w env"
  assumes "int (length rd) < info_Size src"
  shows "(\<forall>st ob'. Update E ob rd src s \<noteq> Some (st, ob', None))
       \<and> (pacer_Call (openUpload_attempt E ob (info_Size src)) (s, \<lparr>TempLocation = []\<rparr>) \<noteq> None
            \<longrightarrow> (\<exists>st ob' e. Update E ob rd src s = Some (st, ob', Some e)))"
proof (intro conjI allI impI)
  fix st ob'
  show "Update E ob rd src s \<noteq> Some (st, ob', None)"
  proof
    assume "Update E ob rd src s = Some (st, ob', None)"
    then have "Update E ob rd src s = Some ((fst st, snd st), ob', None)" by simp
    from Update_trace [OF this]
    have "int (length (snd st)) + max (info_Size src) 0 \<le> int (length rd)" by blast
    with assms show False by simp
  qed
next
  assume "pacer_Call (openUpload_attempt E ob (info_Size src)) (s, \<lparr>TempLocation = []\<rparr>) \<noteq> None"
  then obtain s1 opn e1 where
    o: "pacer_Call (openUpload_attempt E ob (info_Size src)) (s, \<lparr>TempLocation = []\<rparr>)
          = Some ((s1, opn), e1)"
    by auto
  show "\<exists>st ob' e. Update E ob rd src s = Some (st, ob', Some e)"
  proof (cases e1)
    case (Some err)
    with o show ?thesis by (simp add: Update_def Let_def)
  next
    case None
    from assms have "int (length (snd (s1, rd))) < info_Size src" by simp
    from Update_loop_short_reader [OF this] obtain st' e where
      "Update_loop E ob opn 0 (info_Size src) 0 (s1, rd) = Some (st', Some e)" by blast
    with o None show ?thesis by (simp add: Update_def Let_def)
  qed
qed

lemma sim_open_returns:
  "pacer_Call (openUpload_attempt (sim_env [] \<lparr>Files = [], Folders = []\<rparr> [] 0)
      (sim_object ''a.txt'')
      (info_Size \<lparr>info_Remote = ''a.txt'', info_Size = 3, info_ModTime = time_Unix 5 0\<rparr>))
     (sim_start, \<lparr>TempLocation = []\<rparr>) \<noteq> None"
  by (simp add: sim_upload_simps)

lemma sim_upload_short:
  "upload_outcome (Update (sim_env [] \<lparr>Files = [], Folders = []\<rparr> [] 0) (sim_object ''a.txt'') ''ab''
      \<lparr>info_Remote = ''a.txt'', info_Size = 3, info_ModTime = time_Unix 5 0\<rparr> sim_start)
   = Some ([], [], Some (errors_Wrap io_EOF ''failed to create file''))"
  by code_simp

theorem Update_short_stream_fails_witness:
  "int (length ''ab'') < info_Size \<lparr>info_Remote = ''a.txt'', info_Size = 3, info_ModTime = time_Unix 5 0\<rparr>
   \<and> pacer_Call (openUpload_attempt (sim_env [] \<lparr>Files = [], Folders = []\<rparr> [] 0)
        (sim_object ''a.txt'')
        (info_Size \<lparr>info_Remote = ''a.txt'', info_Size = 3, info_ModTime = time_Unix 5 0\<rparr>))
       (sim_start, \<lparr>TempLocation = []\<rparr>) \<noteq> None
   \<and> (\<exists>st ob' e. Update (sim_env [] \<lparr>Files = [], Folders = []\<rparr> [] 0) (sim_object ''a.txt'') ''ab''
        \<lparr>info_Remote = ''a.txt'', info_Size = 3, info_ModTime = time_Unix 5 0\<rparr> sim_start
        = Some (st, ob', Some e))
   \<and> upload_outcome (Update (sim_env [] \<lparr>Files = [], Folders = []\<rparr> [] 0) (sim_object ''a.txt'') ''ab''
        \<lparr>info_Remote = ''a.txt'', info_Size = 3, info_ModTime = time_Unix 5 0\<rparr> sim_start)
     = Some ([], [], Some (errors_Wrap io_EOF ''failed to create file''))"
proof -
  let ?src = "\<lparr>info_Remote = ''a.txt'', info_Size = 3, info_ModTime = time_Unix 5 0\<rparr>"
  have h: "int (length ''ab'') < info_Size ?src" by simp
  note t = Update_short_stream_fails [OF h, of "sim_env [] \<lparr>Files = [], Folders = []\<rparr> [] 0"
      "sim_object ''a.txt''" sim_start]
  note r = t [THEN conjunct2, THEN mp, OF sim_open_returns]
  show ?thesis by (rule conjI [OF h conjI [OF sim_open_returns conjI [OF r sim_upload_short]]])
qed

text \<open>
  C4 as stated fails: with the declared size 1 and a stream of two bytes, \<^verbatim>\<open>Update\<close>
  completes without error; the one chunk accepted holds the first byte and the second byte
  is left in the reader.
\<close>

theorem Update_truncates_longer_stream:
  "int (length ''ab'') \<noteq> info_Size \<lparr>info_Remote = ''a.txt'', info_Size = 1, info_ModTime = time_Unix 5 0\<rparr>
   \<and> upload_outcome (Update (sim_env [] \<lparr>Files = [], Folders = []\<rparr> [] 0) (sim_object ''a.txt'') ''ab''
        \<lparr>info_Remote = ''a.txt'', info_Size = 1, info_ModTime = time_Unix 5 0\<rparr> sim_start)
     = Some ([''a''], ''b'', None)"
proof (rule conjI)
  show "int (length ''ab'') \<noteq> info_Size \<lparr>info_Remote = ''a.txt'', info_Size = 1, info_ModTime = time_Unix 5 0\<rparr>"
    by simp
  show "upload_outcome (Update (sim_env [] \<lparr>Files = [], Folders = []\<rparr> [] 0) (sim_object ''a.txt'') ''ab''
        \<lparr>info_Remote = ''a.txt'', info_Size = 1, info_ModTime = time_Unix 5 0\<rparr> sim_start)
     = Some ([''a''], ''b'', None)"
    by code_simp
qed

end
